theory Spec2Isabelle
  imports Complex_Main
begin

section \<open>The CPU renderer of the GradingTone operator\<close>

text \<open>
  A shallow embedding of \<^verbatim>\<open>src/OpenColorIO/ops/gradingtone/GradingToneOpCPU.cpp\<close>.

  Numbers. The C++ types \<^verbatim>\<open>float\<close> and \<^verbatim>\<open>double\<close> are both read as the real numbers:
  every arithmetic operation is exact, and there is no rounding, no infinity and no NaN.
  The decimal literals of the source stand for the decimals they spell. What is proved
  below is therefore about the branch structure and the formulas of the renderer, not
  about the rounding of IEEE arithmetic. There are two exceptions. The conversion of the
  contrast control from \<^verbatim>\<open>double\<close> to \<^verbatim>\<open>float\<close> is the rounding to the nearest
  \<^verbatim>\<open>float\<close>, since the neutral test is made on its result. The clamp is given for
  every type of values with a comparison, and its properties are stated for values that
  include the infinities and NaN.

  Memory. A pixel buffer is a range of cells of a store indexed by natural numbers,
  one cell for each \<^verbatim>\<open>float\<close>; a \<^verbatim>\<open>float *\<close> is the index of a cell and
  \<^verbatim>\<open>p + 4\<close> is index arithmetic. The input and the output buffer live in the same
  store, so that they can be the same buffer, as the source allows.
  \<^verbatim>\<open>numPixels\<close> is a count of pixels and is a natural number here.
\<close>

type_synonym float = real
type_synonym double = real
type_synonym mem = "nat \<Rightarrow> float"

subsection \<open>Data read by the renderer\<close>

datatype RGBMChannel = R | G | B | M

text \<open>The value of the enumerator, as it is used to index \<^verbatim>\<open>out\<close> and the tables.\<close>

fun chan :: "RGBMChannel \<Rightarrow> nat" where
  "chan R = 0"
| "chan G = 1"
| "chan B = 2"
| "chan M = 3"

text \<open>
  Modelled from the spec: the type \<^verbatim>\<open>GradingTone\<close> is declared in a header that is
  not part of the sources at hand. The spec gives it one scalar control for each band
  and each channel of red, green, blue and master, and one symmetric-contrast scalar.
\<close>

record GradingTone =
  m_midtones :: "RGBMChannel \<Rightarrow> double"
  m_highlights :: "RGBMChannel \<Rightarrow> double"
  m_shadows :: "RGBMChannel \<Rightarrow> double"
  m_whites :: "RGBMChannel \<Rightarrow> double"
  m_blacks :: "RGBMChannel \<Rightarrow> double"
  m_scontrast :: double

text \<open>
  Modelled from the spec: \<^verbatim>\<open>GetChannelValue\<close> is declared in the same missing header;
  it returns the control of one channel of a band, as a \<^verbatim>\<open>float\<close>.
\<close>

definition GetChannelValue :: "(RGBMChannel \<Rightarrow> double) \<Rightarrow> RGBMChannel \<Rightarrow> float" where
  "GetChannelValue band channel = band channel"

text \<open>
  Modelled from the spec: \<^verbatim>\<open>Clamp\<close> comes from \<^verbatim>\<open>MathUtils.h\<close>, which is missing;
  the spec says that the midtone control is clamped to the interval from 0.01 to 1.99.
\<close>

definition Clamp :: "float \<Rightarrow> float \<Rightarrow> float \<Rightarrow> float" where
  "Clamp a lo hi = min (max lo a) hi"

text \<open>
  Modelled from the spec: the type \<^verbatim>\<open>GradingTonePreRender\<close> of the table of
  precomputed coefficients is declared in a missing header as well. The spec gives it,
  for each band and channel, breakpoints, ordinates and slopes, a gain for the whites and
  blacks, and a pivot and two sets of coefficients for the contrast. The names of the
  fields and the way they are indexed are those the renderer reads; an array is a
  function of its indices.
\<close>

record GradingTonePreRender =
  m_midX :: "nat \<Rightarrow> nat \<Rightarrow> float"
  m_midY :: "nat \<Rightarrow> nat \<Rightarrow> float"
  m_midM :: "nat \<Rightarrow> nat \<Rightarrow> float"
  m_hsX :: "nat \<Rightarrow> nat \<Rightarrow> nat \<Rightarrow> float"
  m_hsY :: "nat \<Rightarrow> nat \<Rightarrow> nat \<Rightarrow> float"
  m_hsM :: "nat \<Rightarrow> nat \<Rightarrow> nat \<Rightarrow> float"
  m_wbX :: "nat \<Rightarrow> nat \<Rightarrow> nat \<Rightarrow> float"
  m_wbY :: "nat \<Rightarrow> nat \<Rightarrow> nat \<Rightarrow> float"
  m_wbM :: "nat \<Rightarrow> nat \<Rightarrow> nat \<Rightarrow> float"
  m_wbGain :: "nat \<Rightarrow> nat \<Rightarrow> float"
  m_scX :: "nat \<Rightarrow> nat \<Rightarrow> float"
  m_scY :: "nat \<Rightarrow> nat \<Rightarrow> float"
  m_scM :: "nat \<Rightarrow> nat \<Rightarrow> float"
  m_pivot :: float

text \<open>
  Modelled from the spec: the class of the dynamic property \<^verbatim>\<open>m_gt\<close> of the renderer
  is declared in a missing header. \<^verbatim>\<open>apply\<close> reads the bypass flag, the controls and
  the table from it.
\<close>

record DynamicPropertyGradingToneImpl =
  getLocalBypass :: bool
  getValue :: GradingTone
  getComputedValue :: GradingTonePreRender

datatype Exception = Exception string

subsection \<open>The struct float3\<close>

datatype float3 = float3 (f3_0: float) (f3_1: float) (f3_2: float)

text \<open>
  The operators of the source between two \<^verbatim>\<open>float3\<close> work on each component.
  The operators between a \<^verbatim>\<open>float3\<close> and a \<^verbatim>\<open>float\<close> apply the scalar to each
  component: \<^verbatim>\<open>t - x0\<close> of the source is written \<open>t - splat x0\<close> here, with the
  scalar widened by \<open>splat\<close>.
\<close>

instantiation float3 :: "{plus, minus, times, inverse}"
begin

definition plus_float3 :: "float3 \<Rightarrow> float3 \<Rightarrow> float3" where
  "plus_float3 a b = float3 (f3_0 a + f3_0 b) (f3_1 a + f3_1 b) (f3_2 a + f3_2 b)"

definition minus_float3 :: "float3 \<Rightarrow> float3 \<Rightarrow> float3" where
  "minus_float3 a b = float3 (f3_0 a - f3_0 b) (f3_1 a - f3_1 b) (f3_2 a - f3_2 b)"

definition times_float3 :: "float3 \<Rightarrow> float3 \<Rightarrow> float3" where
  "times_float3 a b = float3 (f3_0 a * f3_0 b) (f3_1 a * f3_1 b) (f3_2 a * f3_2 b)"

definition divide_float3 :: "float3 \<Rightarrow> float3 \<Rightarrow> float3" where
  "divide_float3 a b = float3 (f3_0 a / f3_0 b) (f3_1 a / f3_1 b) (f3_2 a / f3_2 b)"

definition inverse_float3 :: "float3 \<Rightarrow> float3" where
  "inverse_float3 a = float3 (inverse (f3_0 a)) (inverse (f3_1 a)) (inverse (f3_2 a))"

instance ..

end

definition splat :: "float \<Rightarrow> float3" where
  "splat p = float3 p p p"

text \<open>The constructor \<^verbatim>\<open>float3(const float * v)\<close> reads three cells.\<close>

definition float3_load :: "mem \<Rightarrow> nat \<Rightarrow> float3" where
  "float3_load mem v = float3 (mem v) (mem (v + 1)) (mem (v + 2))"

text \<open>\<^verbatim>\<open>float3::setOnLimit\<close>, returning the new value of the object.\<close>

definition float3_setOnLimit :: "float3 \<Rightarrow> float \<Rightarrow> float3 \<Rightarrow> float3 \<Rightarrow> float3" where
  "float3_setOnLimit val limit belowv abovev =
     float3 (if f3_0 val < limit then f3_0 belowv else f3_0 abovev)
            (if f3_1 val < limit then f3_1 belowv else f3_1 abovev)
            (if f3_2 val < limit then f3_2 belowv else f3_2 abovev)"

text \<open>The specialisation \<^verbatim>\<open>setOnLimit<float>\<close>.\<close>

definition float_setOnLimit :: "float \<Rightarrow> float \<Rightarrow> float \<Rightarrow> float \<Rightarrow> float" where
  "float_setOnLimit val limit belowv abovev = (if val < limit then belowv else abovev)"

definition float3_Sqrt :: "float3 \<Rightarrow> float3" where
  "float3_Sqrt val = float3 (sqrt (f3_0 val)) (sqrt (f3_1 val)) (sqrt (f3_2 val))"

text \<open>\<^verbatim>\<open>Set\<close>: three cells for a \<^verbatim>\<open>float3\<close>, the cell of the channel for a \<^verbatim>\<open>float\<close>.\<close>

definition float3_Set :: "RGBMChannel \<Rightarrow> nat \<Rightarrow> float3 \<Rightarrow> mem \<Rightarrow> mem" where
  "float3_Set channel out val mem =
     mem(out := f3_0 val, out + 1 := f3_1 val, out + 2 := f3_2 val)"

definition float_Set :: "RGBMChannel \<Rightarrow> nat \<Rightarrow> float \<Rightarrow> mem \<Rightarrow> mem" where
  "float_Set channel out val mem = mem(out + chan channel := val)"

subsection \<open>The midtone curve\<close>

definition mids :: "GradingTone \<Rightarrow> GradingTonePreRender \<Rightarrow> RGBMChannel \<Rightarrow> nat \<Rightarrow> mem \<Rightarrow> mem" where
  "mids v vpr channel out mem =
    (let mid_adj = Clamp (GetChannelValue (m_midtones v) channel) 0.01 1.99 in
     if mid_adj \<noteq> 1 then
       (let x0 = m_midX vpr (chan channel) 0;
            x1 = m_midX vpr (chan channel) 1;
            x2 = m_midX vpr (chan channel) 2;
            x3 = m_midX vpr (chan channel) 3;
            x4 = m_midX vpr (chan channel) 4;
            x5 = m_midX vpr (chan channel) 5;
            y0 = m_midY vpr (chan channel) 0;
            y1 = m_midY vpr (chan channel) 1;
            y2 = m_midY vpr (chan channel) 2;
            y3 = m_midY vpr (chan channel) 3;
            y4 = m_midY vpr (chan channel) 4;
            y5 = m_midY vpr (chan channel) 5;
            m0 = m_midM vpr (chan channel) 0;
            m1 = m_midM vpr (chan channel) 1;
            m2 = m_midM vpr (chan channel) 2;
            m3 = m_midM vpr (chan channel) 3;
            m4 = m_midM vpr (chan channel) 4;
            m5 = m_midM vpr (chan channel) 5
        in
        if channel \<noteq> M then
          (let t = mem (out + chan channel);
               tL = (t - x0) / (x1 - x0);
               tM = (t - x1) / (x2 - x1);
               tR = (t - x2) / (x3 - x2);
               tR2 = (t - x3) / (x4 - x3);
               tR3 = (t - x4) / (x5 - x4);
               fL = tL * (x1 - x0) * (tL * 0.5 * (m1 - m0) + m0) + y0;
               fM = tM * (x2 - x1) * (tM * 0.5 * (m2 - m1) + m1) + y1;
               fR = tR * (x3 - x2) * (tR * 0.5 * (m3 - m2) + m2) + y2;
               fR2 = tR2 * (x4 - x3) * (tR2 * 0.5 * (m4 - m3) + m3) + y3;
               fR3 = tR3 * (x5 - x4) * (tR3 * 0.5 * (m5 - m4) + m4) + y4;
               res = (if t < x1 then fL else fM);
               res = (if t > x2 then fR else res);
               res = (if t > x3 then fR2 else res);
               res = (if t > x4 then fR3 else res);
               res = (if t < x0 then y0 + (t - x0) * m0 else res);
               res = (if t > x5 then y5 + (t - x5) * m5 else res)
           in mem(out + chan channel := res))
        else
          (let t = float3_load mem out;
               tL = (t - splat x0) / splat (x1 - x0);
               tM = (t - splat x1) / splat (x2 - x1);
               tR = (t - splat x2) / splat (x3 - x2);
               tR2 = (t - splat x3) / splat (x4 - x3);
               tR3 = (t - splat x4) / splat (x5 - x4);
               fL = tL * splat (x1 - x0) * (tL * splat 0.5 * splat (m1 - m0) + splat m0) + splat y0;
               fM = tM * splat (x2 - x1) * (tM * splat 0.5 * splat (m2 - m1) + splat m1) + splat y1;
               fR = tR * splat (x3 - x2) * (tR * splat 0.5 * splat (m3 - m2) + splat m2) + splat y2;
               fR2 = tR2 * splat (x4 - x3) * (tR2 * splat 0.5 * splat (m4 - m3) + splat m3) + splat y3;
               fR3 = tR3 * splat (x5 - x4) * (tR3 * splat 0.5 * splat (m5 - m4) + splat m4) + splat y4;
               fR4 = (t - splat x0) * splat m0 + splat y0;
               fR5 = (t - splat x5) * splat m5 + splat y5;
               res = float3_setOnLimit t x1 fL fM;
               res = float3_setOnLimit t x2 res fR;
               res = float3_setOnLimit t x3 res fR2;
               res = float3_setOnLimit t x4 res fR3;
               res = float3_setOnLimit t x0 fR4 res;
               res = float3_setOnLimit t x5 res fR5
           in mem(out := f3_0 res, out + 1 := f3_1 res, out + 2 := f3_2 res)))
     else mem)"

subsection \<open>The function templates\<close>

text \<open>
  \<^verbatim>\<open>ComputeHS\<close> and \<^verbatim>\<open>ComputeWB\<close> are templates over \<^verbatim>\<open>type\<close>, used at
  \<^verbatim>\<open>float\<close> and at \<^verbatim>\<open>float3\<close>. What the compiler resolves by overloading is passed
  here as a record: how a scalar operand meets a value of the type, and which
  \<^verbatim>\<open>setOnLimit\<close>, \<^verbatim>\<open>Sqrt\<close> and \<^verbatim>\<open>Set\<close> are meant.
\<close>

record 'a overloads =
  widen :: "float \<Rightarrow> 'a"
  setOnLimit :: "'a \<Rightarrow> float \<Rightarrow> 'a \<Rightarrow> 'a \<Rightarrow> 'a"
  Sqrt :: "'a \<Rightarrow> 'a"
  Set :: "RGBMChannel \<Rightarrow> nat \<Rightarrow> 'a \<Rightarrow> mem \<Rightarrow> mem"

definition at_float :: "float overloads" where
  "at_float = \<lparr>widen = (\<lambda>p. p), setOnLimit = float_setOnLimit, Sqrt = sqrt, Set = float_Set\<rparr>"

definition at_float3 :: "float3 overloads" where
  "at_float3 = \<lparr>widen = splat, setOnLimit = float3_setOnLimit, Sqrt = float3_Sqrt, Set = float3_Set\<rparr>"

subsection \<open>The highlight and shadow curve\<close>

definition ComputeHS ::
  "('a::{plus, minus, times, inverse}) overloads \<Rightarrow> RGBMChannel \<Rightarrow> nat \<Rightarrow> float \<Rightarrow>
   float \<Rightarrow> float \<Rightarrow> float \<Rightarrow> float \<Rightarrow> float \<Rightarrow> float \<Rightarrow> float \<Rightarrow> float \<Rightarrow> 'a \<Rightarrow> mem \<Rightarrow> mem" where
  "ComputeHS T channel out val x0 x1 x2 y0 y1 y2 m0 m2 t mem =
    (let s = widen T; res = t in
     if val < 1 then
       (let tL = (t - s x0) / s (x1 - x0);
            tR = (t - s x1) / s (x2 - x1);
            fL = s y0 * (s 1 - tL * tL) + s y1 * tL * tL + s m0 * (s 1 - tL) * tL * s (x1 - x0);
            fR = s y1 * (s 1 - tR) * (s 1 - tR) + s y2 * (s 2 - tR) * tR
                 + s m2 * (tR - s 1) * tR * s (x2 - x1);
            res = setOnLimit T t x1 fL fR;
            r0 = (t - s x0) * s m0 + s y0;
            res = setOnLimit T t x0 r0 res;
            r2 = (t - s x2) * s m2 + s y2;
            res = setOnLimit T t x2 res r2
        in Set T channel out res mem)
     else if val > 1 then
       (let bL = m0 * (x1 - x0);
            aL = y1 - y0 - m0 * (x1 - x0);
            cL = s y0 - t;
            discrimL = Sqrt T (s (bL * bL) - s (4 * aL) * cL);
            outL = (s (- 2) * cL) / (discrimL + s bL) * s (x1 - x0) + s x0;
            bR = 2 * y2 - 2 * y1 - m2 * (x2 - x1);
            aR = y1 - y2 + m2 * (x2 - x1);
            cR = s y1 - t;
            discrimR = Sqrt T (s (bR * bR) - s (4 * aR) * cR);
            outR = (s (- 2) * cR) / (discrimR + s bR) * s (x2 - x1) + s x1;
            res = setOnLimit T t y1 outL outR;
            r0 = (t - s y0) / s m0 + s x0;
            res = setOnLimit T t y0 r0 res;
            r2 = (t - s y2) / s m2 + s x2;
            res = setOnLimit T t y2 res r2
        in Set T channel out res mem)
     else Set T channel out res mem)"

definition highlightShadow ::
  "GradingTone \<Rightarrow> GradingTonePreRender \<Rightarrow> RGBMChannel \<Rightarrow> bool \<Rightarrow> nat \<Rightarrow> mem \<Rightarrow> mem" where
  "highlightShadow v vpr channel isShadow out mem =
    (let val = (if isShadow then GetChannelValue (m_shadows v) channel
                else GetChannelValue (m_highlights v) channel);
         val = (if \<not> isShadow then 2 - val else val)
     in
     if val = 1 then mem
     else
       (let x0 = m_hsX vpr (if isShadow then 1 else 0) (chan channel) 0;
            x1 = m_hsX vpr (if isShadow then 1 else 0) (chan channel) 1;
            x2 = m_hsX vpr (if isShadow then 1 else 0) (chan channel) 2;
            y0 = m_hsY vpr (if isShadow then 1 else 0) (chan channel) 0;
            y1 = m_hsY vpr (if isShadow then 1 else 0) (chan channel) 1;
            y2 = m_hsY vpr (if isShadow then 1 else 0) (chan channel) 2;
            m0 = m_hsM vpr (if isShadow then 1 else 0) (chan channel) 0;
            m2 = m_hsM vpr (if isShadow then 1 else 0) (chan channel) 1
        in
        if channel \<noteq> M then
          (let t = mem (out + chan channel)
           in ComputeHS at_float channel out val x0 x1 x2 y0 y1 y2 m0 m2 t mem)
        else
          (let t = float3_load mem out
           in ComputeHS at_float3 channel out val x0 x1 x2 y0 y1 y2 m0 m2 t mem)))"

subsection \<open>The white and black curve\<close>

definition ComputeWB ::
  "('a::{plus, minus, times, inverse}) overloads \<Rightarrow> RGBMChannel \<Rightarrow> bool \<Rightarrow> nat \<Rightarrow> float \<Rightarrow>
   float \<Rightarrow> float \<Rightarrow> float \<Rightarrow> float \<Rightarrow> float \<Rightarrow> float \<Rightarrow> float \<Rightarrow> 'a \<Rightarrow> mem \<Rightarrow> mem" where
  "ComputeWB T channel isBlack out val x0 x1 y0 y1 m0 m1 gain t mem =
    (let s = widen T; mtest = (if \<not> isBlack then val else 2 - val) in
     if mtest < 1 then
       (let tlocal = (t - s x0) / s (x1 - x0);
            res = tlocal * s (x1 - x0) * (tlocal * s 0.5 * s (m1 - m0) + s m0) + s y0;
            res0 = s y0 + (t - s x0) * s m0;
            res = setOnLimit T t x0 res0 res;
            res1 = s y1 + (t - s x1) * s m1;
            res = setOnLimit T t x1 res res1
        in Set T channel out res mem)
     else if mtest > 1 then
       (let t = (if \<not> isBlack then (t - s x0) * s gain + s x0 else (t - s x1) * s gain + s x1);
            a = 0.5 * (m1 - m0) * (x1 - x0);
            b = m0 * (x1 - x0);
            c = s y0 - t;
            discrim = Sqrt T (s (b * b) - s (4 * a) * c);
            tmp = (s (- 2) * c) / (discrim + s b);
            res = tmp * s (x1 - x0) + s x0;
            res0 = s x0 + (t - s y0) / s m0;
            res = setOnLimit T t y0 res0 res
        in
        if \<not> isBlack then
          (let res = (res - s x0) / s gain + s x0;
               new_y1 = (x1 - x0) / gain + x0;
               xd = x0 + (x1 - x0) * 0.99;
               md = m0 + (xd - x0) * (m1 - m0) / (x1 - x0);
               md = 1 / md;
               aim_m = (1 / m1 - md) / (x1 - xd);
               bb = 1 / m1 - aim_m * x1;
               cc = new_y1 - bb * x1 - 0.5 * aim_m * x1 * x1;
               t = (t - s x0) / s gain + s x0;
               res1 = (s (0.5 * aim_m) * t + s bb) * t + s cc;
               res = setOnLimit T t x1 res res1
           in Set T channel out res mem)
        else
          (let res1 = s x1 + (t - s y1) / s m1;
               res = setOnLimit T t y1 res res1;
               res = (res - s x1) / s gain + s x1
           in Set T channel out res mem))
     else mem)"

definition whiteBlack ::
  "GradingTone \<Rightarrow> GradingTonePreRender \<Rightarrow> RGBMChannel \<Rightarrow> bool \<Rightarrow> nat \<Rightarrow> mem \<Rightarrow> mem" where
  "whiteBlack v vpr channel isBlack out mem =
    (let val = (if isBlack then GetChannelValue (m_blacks v) channel
                else GetChannelValue (m_whites v) channel);
         x0 = m_wbX vpr (if isBlack then 1 else 0) (chan channel) 0;
         x1 = m_wbX vpr (if isBlack then 1 else 0) (chan channel) 1;
         y0 = m_wbY vpr (if isBlack then 1 else 0) (chan channel) 0;
         y1 = m_wbY vpr (if isBlack then 1 else 0) (chan channel) 1;
         m0 = m_wbM vpr (if isBlack then 1 else 0) (chan channel) 0;
         m1 = m_wbM vpr (if isBlack then 1 else 0) (chan channel) 1;
         gain = m_wbGain vpr (if isBlack then 1 else 0) (chan channel)
     in
     if channel \<noteq> M then
       (let t = mem (out + chan channel)
        in ComputeWB at_float channel isBlack out val x0 x1 y0 y1 m0 m1 gain t mem)
     else
       (let t = float3_load mem out
        in ComputeWB at_float3 channel isBlack out val x0 x1 y0 y1 m0 m1 gain t mem))"

subsection \<open>The symmetric contrast curve\<close>

text \<open>\<^verbatim>\<open>std::min\<close> and \<^verbatim>\<open>std::max\<close>, which return their first argument on a tie.\<close>

definition std_min :: "'a::ord \<Rightarrow> 'a \<Rightarrow> 'a" where
  "std_min a b = (if b < a then b else a)"

definition std_max :: "'a::ord \<Rightarrow> 'a \<Rightarrow> 'a" where
  "std_max a b = (if a < b then b else a)"

text \<open>
  The conversion \<^verbatim>\<open>static_cast<float>\<close> of a \<^verbatim>\<open>double\<close>. A \<^verbatim>\<open>float\<close> has a
  significand of 24 bits: between \<open>2^e\<close> and \<open>2^(e+1)\<close> the floats are the multiples of
  \<open>2^(e-23)\<close>, and below \<open>2^(-126)\<close> the multiples of \<open>2^(-149)\<close>. The conversion gives
  the nearest float, and of two nearest ones the one with the even multiple. A
  \<^verbatim>\<open>double\<close> beyond the largest \<^verbatim>\<open>float\<close> converts to an infinity; the real numbers
  have none, and such a control is outside this model.
\<close>

definition round_to_even :: "real \<Rightarrow> int" where
  "round_to_even r =
     (let f = \<lfloor>r\<rfloor> in
      if r - of_int f < 1 / 2 then f
      else if r - of_int f > 1 / 2 then f + 1
      else if even f then f else f + 1)"

definition float_exponent :: "real \<Rightarrow> int" where
  "float_exponent x = max \<lfloor>log 2 \<bar>x\<bar>\<rfloor> (- 126)"

definition static_cast_float :: "double \<Rightarrow> float" where
  "static_cast_float x =
     (if x = 0 then 0
      else of_int (round_to_even (x / 2 powi (float_exponent x - 23)))
           * 2 powi (float_exponent x - 23))"

definition scontrast :: "GradingTone \<Rightarrow> GradingTonePreRender \<Rightarrow> nat \<Rightarrow> mem \<Rightarrow> mem" where
  "scontrast v vpr out mem =
    (let contrast = static_cast_float (m_scontrast v) in
     if contrast \<noteq> 1 then
       (let contrast = (if contrast > 1 then 1 / (1.8125 - 0.8125 * std_min contrast 1.99)
                        else 0.28125 + 0.71875 * std_max contrast 0.01);
            t = float3_load mem out;
            outColor = (t - splat (m_pivot vpr)) * splat contrast + splat (m_pivot vpr);
            outColor =
              (let x1 = m_scX vpr 0 1;
                   x2 = m_scX vpr 0 2;
                   y1 = m_scY vpr 0 1;
                   y2 = m_scY vpr 0 2;
                   m0 = m_scM vpr 0 0;
                   m3 = m_scM vpr 0 1;
                   tR = (t - splat x1) / splat (x2 - x1);
                   res = tR * splat (x2 - x1) * (tR * splat 0.5 * splat (m3 - m0) + splat m0) + splat y1;
                   outColor = float3_setOnLimit t x1 outColor res;
                   res2 = splat y2 + (t - splat x2) * splat m3
               in float3_setOnLimit t x2 outColor res2);
            outColor =
              (let x1 = m_scX vpr 1 1;
                   x2 = m_scX vpr 1 2;
                   y1 = m_scY vpr 1 1;
                   m0 = m_scM vpr 1 0;
                   m3 = m_scM vpr 1 1;
                   tR = (t - splat x1) / splat (x2 - x1);
                   res = tR * splat (x2 - x1) * (tR * splat 0.5 * splat (m3 - m0) + splat m0) + splat y1;
                   outColor = float3_setOnLimit t x2 res outColor;
                   res1 = splat y1 + (t - splat x1) * splat m0
               in float3_setOnLimit t x1 res1 outColor)
        in mem(out := f3_0 outColor, out + 1 := f3_1 outColor, out + 2 := f3_2 outColor))
     else mem)"

subsection \<open>The clamp\<close>

text \<open>
  \<^verbatim>\<open>ClampMaxRGB\<close> compares and copies and does no arithmetic, so its model does not
  depend on how the values are computed: it is given for every type of values that has
  the comparison and the constant. The renderers use it on the real numbers.
\<close>

definition ClampMaxRGB :: "nat \<Rightarrow> (nat \<Rightarrow> 'a::{ord, numeral}) \<Rightarrow> nat \<Rightarrow> 'a" where
  "ClampMaxRGB out mem =
    (let mem = mem(out := std_min (mem out) 65504);
         mem = mem(out + 1 := std_min (mem (out + 1)) 65504);
         mem = mem(out + 2 := std_min (mem (out + 2)) 65504)
     in mem)"

text \<open>
  The values of a \<^verbatim>\<open>float\<close> as a comparison tells them apart: the finite numbers, the
  two infinities, and NaN, which is neither below nor above nor equal to anything. The
  two zeros compare equal and are one value here. The addition is the exact one on
  finite numbers, with the rules of the infinities and of NaN; it is there for the
  numerals.
\<close>

datatype ieee = Finite real | PlusInfinity | MinusInfinity | NaN

instantiation ieee :: "{one, semigroup_add, ord}"
begin

definition one_ieee :: ieee where
  "one_ieee = Finite 1"

fun plus_ieee :: "ieee \<Rightarrow> ieee \<Rightarrow> ieee" where
  "plus_ieee NaN b = NaN"
| "plus_ieee a NaN = NaN"
| "plus_ieee PlusInfinity MinusInfinity = NaN"
| "plus_ieee MinusInfinity PlusInfinity = NaN"
| "plus_ieee PlusInfinity b = PlusInfinity"
| "plus_ieee a PlusInfinity = PlusInfinity"
| "plus_ieee MinusInfinity b = MinusInfinity"
| "plus_ieee a MinusInfinity = MinusInfinity"
| "plus_ieee (Finite a) (Finite b) = Finite (a + b)"

fun less_ieee :: "ieee \<Rightarrow> ieee \<Rightarrow> bool" where
  "less_ieee NaN b = False"
| "less_ieee a NaN = False"
| "less_ieee a MinusInfinity = False"
| "less_ieee PlusInfinity b = False"
| "less_ieee MinusInfinity b = True"
| "less_ieee a PlusInfinity = True"
| "less_ieee (Finite a) (Finite b) = (a < b)"

fun less_eq_ieee :: "ieee \<Rightarrow> ieee \<Rightarrow> bool" where
  "less_eq_ieee NaN b = False"
| "less_eq_ieee a NaN = False"
| "less_eq_ieee MinusInfinity b = True"
| "less_eq_ieee a PlusInfinity = True"
| "less_eq_ieee a MinusInfinity = False"
| "less_eq_ieee PlusInfinity b = False"
| "less_eq_ieee (Finite a) (Finite b) = (a \<le> b)"

instance
proof
  fix a b c :: ieee
  show "a + b + c = a + (b + c)"
    by (cases a; cases b; cases c) simp_all
qed

end

instance ieee :: numeral ..

subsection \<open>The plain forward renderer\<close>

text \<open>
  \<^verbatim>\<open>memcpy\<close> of \<open>n\<close> cells. The source region is read as it is before the call;
  C leaves the copy between two overlapping, different regions undefined.
  \<^verbatim>\<open>PixelSize\<close> is four cells.
\<close>

definition memcpy :: "nat \<Rightarrow> nat \<Rightarrow> nat \<Rightarrow> mem \<Rightarrow> mem" where
  "memcpy dst src n mem = (\<lambda>a. if dst \<le> a \<and> a < dst + n then mem (src + (a - dst)) else mem a)"

definition PixelSize :: nat where
  "PixelSize = 4"

text \<open>The body of the loop of \<^verbatim>\<open>GradingToneFwdOpCPU::apply\<close>, for one pixel.\<close>

definition GradingToneFwdOpCPU_pixel ::
  "GradingTone \<Rightarrow> GradingTonePreRender \<Rightarrow> nat \<Rightarrow> nat \<Rightarrow> mem \<Rightarrow> mem" where
  "GradingToneFwdOpCPU_pixel v vpr inp out mem =
    (let mem = memcpy out inp PixelSize mem;
         mem = mids v vpr R out mem;
         mem = mids v vpr G out mem;
         mem = mids v vpr B out mem;
         mem = mids v vpr M out mem;
         mem = highlightShadow v vpr R False out mem;
         mem = highlightShadow v vpr G False out mem;
         mem = highlightShadow v vpr B False out mem;
         mem = highlightShadow v vpr M False out mem;
         mem = whiteBlack v vpr R False out mem;
         mem = whiteBlack v vpr G False out mem;
         mem = whiteBlack v vpr B False out mem;
         mem = whiteBlack v vpr M False out mem;
         mem = highlightShadow v vpr R True out mem;
         mem = highlightShadow v vpr G True out mem;
         mem = highlightShadow v vpr B True out mem;
         mem = highlightShadow v vpr M True out mem;
         mem = whiteBlack v vpr R True out mem;
         mem = whiteBlack v vpr G True out mem;
         mem = whiteBlack v vpr B True out mem;
         mem = whiteBlack v vpr M True out mem;
         mem = scontrast v vpr out mem;
         mem = ClampMaxRGB out mem
     in mem)"

fun GradingToneFwdOpCPU_loop ::
  "GradingTone \<Rightarrow> GradingTonePreRender \<Rightarrow> nat \<Rightarrow> nat \<Rightarrow> nat \<Rightarrow> mem \<Rightarrow> mem" where
  "GradingToneFwdOpCPU_loop v vpr inp out 0 mem = mem"
| "GradingToneFwdOpCPU_loop v vpr inp out (Suc n) mem =
     GradingToneFwdOpCPU_loop v vpr (inp + 4) (out + 4) n (GradingToneFwdOpCPU_pixel v vpr inp out mem)"

text \<open>
  \<^verbatim>\<open>apply\<close> returns the exception it throws, if any, and the store it leaves.
\<close>

definition GradingToneFwdOpCPU_apply ::
  "DynamicPropertyGradingToneImpl \<Rightarrow> nat \<Rightarrow> nat \<Rightarrow> nat \<Rightarrow> mem \<Rightarrow> Exception option \<times> mem" where
  "GradingToneFwdOpCPU_apply m_gt inImg outImg numPixels mem =
    (if getLocalBypass m_gt then
       (if inImg \<noteq> outImg then (None, memcpy outImg inImg (numPixels * PixelSize) mem)
        else (None, mem))
     else
       (None, GradingToneFwdOpCPU_loop (getValue m_gt) (getComputedValue m_gt)
                inImg outImg numPixels mem))"

subsection \<open>The forward renderer of the linear style\<close>

definition lin_xbrk :: float where "lin_xbrk = 0.0041318374739483946"
definition lin_shift :: float where "lin_shift = - 0.000157849851665374"
definition lin_m :: float where "lin_m = 1 / (0.18 + lin_shift)"
definition lin_gain :: float where "lin_gain = 363.034608563"
definition lin_offs :: float where "lin_offs = - 7"
definition lin_ybrk :: float where "lin_ybrk = - 5.5"
definition lin_base2 :: float where "lin_base2 = 1.4426950408889634"

text \<open>
  The branch compiled with \<^verbatim>\<open>USE_SSE\<close> works on four lanes at once. A comparison
  gives a mask, and \<^verbatim>\<open>_mm_or_ps(_mm_and_ps(flag, a), _mm_andnot_ps(flag, b))\<close> takes
  \<open>a\<close> where the mask is set and \<open>b\<close> elsewhere: a lane that is masked out is zero, and
  a bitwise or with zero gives the other operand.
\<close>

datatype m128 = m128 (lane0: float) (lane1: float) (lane2: float) (lane3: float)

datatype m128_mask = m128_mask (bit0: bool) (bit1: bool) (bit2: bool) (bit3: bool)

definition mm_set1_ps :: "float \<Rightarrow> m128" where
  "mm_set1_ps a = m128 a a a a"

definition mm_loadu_ps :: "mem \<Rightarrow> nat \<Rightarrow> m128" where
  "mm_loadu_ps mem p = m128 (mem p) (mem (p + 1)) (mem (p + 2)) (mem (p + 3))"

definition mm_storeu_ps :: "nat \<Rightarrow> m128 \<Rightarrow> mem \<Rightarrow> mem" where
  "mm_storeu_ps p a mem = mem(p := lane0 a, p + 1 := lane1 a, p + 2 := lane2 a, p + 3 := lane3 a)"

definition mm_cmpgt_ps :: "m128 \<Rightarrow> m128 \<Rightarrow> m128_mask" where
  "mm_cmpgt_ps a b =
     m128_mask (lane0 a > lane0 b) (lane1 a > lane1 b) (lane2 a > lane2 b) (lane3 a > lane3 b)"

definition mm_add_ps :: "m128 \<Rightarrow> m128 \<Rightarrow> m128" where
  "mm_add_ps a b = m128 (lane0 a + lane0 b) (lane1 a + lane1 b) (lane2 a + lane2 b) (lane3 a + lane3 b)"

definition mm_sub_ps :: "m128 \<Rightarrow> m128 \<Rightarrow> m128" where
  "mm_sub_ps a b = m128 (lane0 a - lane0 b) (lane1 a - lane1 b) (lane2 a - lane2 b) (lane3 a - lane3 b)"

definition mm_mul_ps :: "m128 \<Rightarrow> m128 \<Rightarrow> m128" where
  "mm_mul_ps a b = m128 (lane0 a * lane0 b) (lane1 a * lane1 b) (lane2 a * lane2 b) (lane3 a * lane3 b)"

definition mm_and_ps :: "m128_mask \<Rightarrow> m128 \<Rightarrow> m128" where
  "mm_and_ps flag a =
     m128 (if bit0 flag then lane0 a else 0) (if bit1 flag then lane1 a else 0)
          (if bit2 flag then lane2 a else 0) (if bit3 flag then lane3 a else 0)"

definition mm_andnot_ps :: "m128_mask \<Rightarrow> m128 \<Rightarrow> m128" where
  "mm_andnot_ps flag a =
     m128 (if bit0 flag then 0 else lane0 a) (if bit1 flag then 0 else lane1 a)
          (if bit2 flag then 0 else lane2 a) (if bit3 flag then 0 else lane3 a)"

definition mm_or_ps :: "m128 \<Rightarrow> m128 \<Rightarrow> m128" where
  "mm_or_ps a b =
     m128 (if lane0 a = 0 then lane0 b else lane0 a) (if lane1 a = 0 then lane1 b else lane1 a)
          (if lane2 a = 0 then lane2 b else lane2 a) (if lane3 a = 0 then lane3 b else lane3 a)"

text \<open>
  Modelled from the spec: \<^verbatim>\<open>sseLog2\<close> and \<^verbatim>\<open>ssePower\<close> come from \<^verbatim>\<open>SSE.h\<close>, which
  is missing. The spec gives the logarithm to base 2 and the power \<open>2^x\<close> for them.
\<close>

definition sseLog2 :: "m128 \<Rightarrow> m128" where
  "sseLog2 a = m128 (log 2 (lane0 a)) (log 2 (lane1 a)) (log 2 (lane2 a)) (log 2 (lane3 a))"

definition ssePower :: "m128 \<Rightarrow> m128 \<Rightarrow> m128" where
  "ssePower a b =
     m128 (lane0 a powr lane0 b) (lane1 a powr lane1 b) (lane2 a powr lane2 b) (lane3 a powr lane3 b)"

text \<open>
  The two blocks of the loop of \<^verbatim>\<open>GradingToneLinearFwdOpCPU::apply\<close> that the source
  marks \<^verbatim>\<open>Lin to log\<close> and \<^verbatim>\<open>Log to lin\<close>. The flag \<open>USE_SSE\<close> says which of
  the two branches of the preprocessor is compiled.
\<close>

definition lin_to_log :: "bool \<Rightarrow> nat \<Rightarrow> nat \<Rightarrow> mem \<Rightarrow> mem" where
  "lin_to_log USE_SSE inp out mem =
    (if USE_SSE then
       (let pix = mm_loadu_ps mem inp;
            flag = mm_cmpgt_ps pix (mm_set1_ps lin_xbrk);
            pixLin = mm_mul_ps pix (mm_set1_ps lin_gain);
            pixLin = mm_add_ps pixLin (mm_set1_ps lin_offs);
            pix = mm_add_ps pix (mm_set1_ps lin_shift);
            pix = mm_mul_ps pix (mm_set1_ps lin_m);
            pix = sseLog2 pix;
            pix = mm_or_ps (mm_and_ps flag pix) (mm_andnot_ps flag pixLin)
        in mm_storeu_ps out pix mem)
     else
       (let mem = mem(out := (if mem inp < lin_xbrk then mem inp * lin_gain + lin_offs
                              else lin_base2 * ln ((mem inp + lin_shift) * lin_m)));
            mem = mem(out + 1 := (if mem (inp + 1) < lin_xbrk then mem (inp + 1) * lin_gain + lin_offs
                                  else lin_base2 * ln ((mem (inp + 1) + lin_shift) * lin_m)));
            mem = mem(out + 2 := (if mem (inp + 2) < lin_xbrk then mem (inp + 2) * lin_gain + lin_offs
                                  else lin_base2 * ln ((mem (inp + 2) + lin_shift) * lin_m)));
            mem = mem(out + 3 := mem (inp + 3))
        in mem))"

definition log_to_lin :: "bool \<Rightarrow> nat \<Rightarrow> mem \<Rightarrow> mem" where
  "log_to_lin USE_SSE out mem =
    (if USE_SSE then
       (let pix = mm_loadu_ps mem out;
            flag = mm_cmpgt_ps pix (mm_set1_ps lin_ybrk);
            pixLin = mm_sub_ps pix (mm_set1_ps lin_offs);
            pixLin = mm_mul_ps pixLin (mm_set1_ps (1 / lin_gain));
            pix = ssePower (mm_set1_ps 2) pix;
            pix = mm_mul_ps pix (mm_set1_ps (lin_shift + 0.18));
            pix = mm_sub_ps pix (mm_set1_ps lin_shift);
            pix = mm_or_ps (mm_and_ps flag pix) (mm_andnot_ps flag pixLin)
        in mm_storeu_ps out pix mem)
     else
       (let mem = mem(out := (if mem out < lin_ybrk then (mem out - lin_offs) / lin_gain
                              else 2 powr (mem out) * (0.18 + lin_shift) - lin_shift));
            mem = mem(out + 1 := (if mem (out + 1) < lin_ybrk then (mem (out + 1) - lin_offs) / lin_gain
                                  else 2 powr (mem (out + 1)) * (0.18 + lin_shift) - lin_shift));
            mem = mem(out + 2 := (if mem (out + 2) < lin_ybrk then (mem (out + 2) - lin_offs) / lin_gain
                                  else 2 powr (mem (out + 2)) * (0.18 + lin_shift) - lin_shift))
        in mem))"

text \<open>The body of the loop, for one pixel.\<close>

definition GradingToneLinearFwdOpCPU_pixel ::
  "bool \<Rightarrow> GradingTone \<Rightarrow> GradingTonePreRender \<Rightarrow> nat \<Rightarrow> nat \<Rightarrow> mem \<Rightarrow> mem" where
  "GradingToneLinearFwdOpCPU_pixel USE_SSE v vpr inp out mem =
    (let mem = lin_to_log USE_SSE inp out mem;
         mem = mids v vpr R out mem;
         mem = mids v vpr G out mem;
         mem = mids v vpr B out mem;
         mem = mids v vpr M out mem;
         mem = highlightShadow v vpr R False out mem;
         mem = highlightShadow v vpr G False out mem;
         mem = highlightShadow v vpr B False out mem;
         mem = highlightShadow v vpr M False out mem;
         mem = whiteBlack v vpr R False out mem;
         mem = whiteBlack v vpr G False out mem;
         mem = whiteBlack v vpr B False out mem;
         mem = whiteBlack v vpr M False out mem;
         mem = highlightShadow v vpr R True out mem;
         mem = highlightShadow v vpr G True out mem;
         mem = highlightShadow v vpr B True out mem;
         mem = highlightShadow v vpr M True out mem;
         mem = whiteBlack v vpr R True out mem;
         mem = whiteBlack v vpr G True out mem;
         mem = whiteBlack v vpr B True out mem;
         mem = whiteBlack v vpr M True out mem;
         mem = scontrast v vpr out mem;
         mem = log_to_lin USE_SSE out mem;
         mem = ClampMaxRGB out mem
     in mem)"

fun GradingToneLinearFwdOpCPU_loop ::
  "bool \<Rightarrow> GradingTone \<Rightarrow> GradingTonePreRender \<Rightarrow> nat \<Rightarrow> nat \<Rightarrow> nat \<Rightarrow> mem \<Rightarrow> mem" where
  "GradingToneLinearFwdOpCPU_loop USE_SSE v vpr inp out 0 mem = mem"
| "GradingToneLinearFwdOpCPU_loop USE_SSE v vpr inp out (Suc n) mem =
     GradingToneLinearFwdOpCPU_loop USE_SSE v vpr (inp + 4) (out + 4) n
       (GradingToneLinearFwdOpCPU_pixel USE_SSE v vpr inp out mem)"

definition GradingToneLinearFwdOpCPU_apply ::
  "bool \<Rightarrow> DynamicPropertyGradingToneImpl \<Rightarrow> nat \<Rightarrow> nat \<Rightarrow> nat \<Rightarrow> mem \<Rightarrow> Exception option \<times> mem" where
  "GradingToneLinearFwdOpCPU_apply USE_SSE m_gt inImg outImg numPixels mem =
    (if getLocalBypass m_gt then
       (if inImg \<noteq> outImg then (None, memcpy outImg inImg (numPixels * PixelSize) mem)
        else (None, mem))
     else
       (None, GradingToneLinearFwdOpCPU_loop USE_SSE (getValue m_gt) (getComputedValue m_gt)
                inImg outImg numPixels mem))"

subsection \<open>The renderers of the inverse direction\<close>

definition GradingToneRevOpCPU_apply ::
  "DynamicPropertyGradingToneImpl \<Rightarrow> nat \<Rightarrow> nat \<Rightarrow> nat \<Rightarrow> mem \<Rightarrow> Exception option \<times> mem" where
  "GradingToneRevOpCPU_apply m_gt inImg outImg numPixels mem =
     (Some (Exception ''GradingTone inverse CPU not implemented.''), mem)"

definition GradingToneLinearRevOpCPU_apply ::
  "DynamicPropertyGradingToneImpl \<Rightarrow> nat \<Rightarrow> nat \<Rightarrow> nat \<Rightarrow> mem \<Rightarrow> Exception option \<times> mem" where
  "GradingToneLinearRevOpCPU_apply m_gt inImg outImg numPixels mem =
     (Some (Exception ''GradingTone inverse CPU not implemented.''), mem)"

subsection \<open>Choosing the renderer\<close>

text \<open>
  Modelled from the spec: the operator data \<^verbatim>\<open>GradingToneOpData\<close> and the two
  enumerations are declared in missing headers. The spec gives a direction flag, forward
  or inverse, and a style flag. An object of the enumeration can hold a value that is
  neither direction; \<^verbatim>\<open>GetGradingToneCPURenderer\<close> throws for it.
\<close>

datatype TransformDirection = TRANSFORM_DIR_FORWARD | TRANSFORM_DIR_INVERSE | TRANSFORM_DIR_UNKNOWN

datatype GradingStyle = GRADING_LOG | GRADING_LIN | GRADING_VIDEO

record GradingToneOpData =
  getDirection :: TransformDirection
  getStyle :: GradingStyle
  getDynamicPropertyInternal :: DynamicPropertyGradingToneImpl

datatype OpCPU =
    GradingToneFwdOpCPU DynamicPropertyGradingToneImpl
  | GradingToneLinearFwdOpCPU DynamicPropertyGradingToneImpl
  | GradingToneRevOpCPU DynamicPropertyGradingToneImpl
  | GradingToneLinearRevOpCPU DynamicPropertyGradingToneImpl

definition GetGradingToneCPURenderer :: "GradingToneOpData \<Rightarrow> Exception + OpCPU" where
  "GetGradingToneCPURenderer tone =
    (if getDirection tone = TRANSFORM_DIR_FORWARD then
       (if getStyle tone = GRADING_LIN
        then Inr (GradingToneLinearFwdOpCPU (getDynamicPropertyInternal tone))
        else Inr (GradingToneFwdOpCPU (getDynamicPropertyInternal tone)))
     else if getDirection tone = TRANSFORM_DIR_INVERSE then
       (if getStyle tone = GRADING_LIN
        then Inr (GradingToneLinearRevOpCPU (getDynamicPropertyInternal tone))
        else Inr (GradingToneRevOpCPU (getDynamicPropertyInternal tone)))
     else Inl (Exception ''Unsupported GradingTone direction.''))"

text \<open>The virtual call \<^verbatim>\<open>OpCPU::apply\<close>.\<close>

fun OpCPU_apply :: "bool \<Rightarrow> OpCPU \<Rightarrow> nat \<Rightarrow> nat \<Rightarrow> nat \<Rightarrow> mem \<Rightarrow> Exception option \<times> mem" where
  "OpCPU_apply USE_SSE (GradingToneFwdOpCPU m_gt) inImg outImg numPixels mem =
     GradingToneFwdOpCPU_apply m_gt inImg outImg numPixels mem"
| "OpCPU_apply USE_SSE (GradingToneLinearFwdOpCPU m_gt) inImg outImg numPixels mem =
     GradingToneLinearFwdOpCPU_apply USE_SSE m_gt inImg outImg numPixels mem"
| "OpCPU_apply USE_SSE (GradingToneRevOpCPU m_gt) inImg outImg numPixels mem =
     GradingToneRevOpCPU_apply m_gt inImg outImg numPixels mem"
| "OpCPU_apply USE_SSE (GradingToneLinearRevOpCPU m_gt) inImg outImg numPixels mem =
     GradingToneLinearRevOpCPU_apply m_gt inImg outImg numPixels mem"

section \<open>What the specification says, and example data\<close>

subsection \<open>The midtone curve in the words of the specification\<close>

text \<open>The six breakpoints of a row of the table increase strictly.\<close>

definition increasing6 :: "(nat \<Rightarrow> float) \<Rightarrow> bool" where
  "increasing6 x = (x 0 < x 1 \<and> x 1 < x 2 \<and> x 2 < x 3 \<and> x 3 < x 4 \<and> x 4 < x 5)"

text \<open>
  The blend of one segment: with \<open>u = (t - x_left) / (x_right - x_left)\<close> the value is
  \<open>u (x_right - x_left) (u 0.5 (m_right - m_left) + m_left) + y_left\<close>.
\<close>

definition hermite_blend :: "float \<Rightarrow> float \<Rightarrow> float \<Rightarrow> float \<Rightarrow> float \<Rightarrow> float \<Rightarrow> float" where
  "hermite_blend x_left x_right y_left m_left m_right t =
     (let u = (t - x_left) / (x_right - x_left)
      in u * (x_right - x_left) * (u * 0.5 * (m_right - m_left) + m_left) + y_left)"

text \<open>
  Five segments between the breakpoints \<open>x 0\<close> to \<open>x 5\<close>, chosen by strict comparisons
  with \<open>x 1\<close> to \<open>x 4\<close>; below \<open>x 0\<close> and above \<open>x 5\<close> a line of slope \<open>m 0\<close> from
  \<open>y 0\<close> and of slope \<open>m 5\<close> from \<open>y 5\<close>.
\<close>

definition midtone_curve :: "(nat \<Rightarrow> float) \<Rightarrow> (nat \<Rightarrow> float) \<Rightarrow> (nat \<Rightarrow> float) \<Rightarrow> float \<Rightarrow> float" where
  "midtone_curve x y m t =
     (if t < x 0 then y 0 + (t - x 0) * m 0
      else if t > x 5 then y 5 + (t - x 5) * m 5
      else if t < x 1 then hermite_blend (x 0) (x 1) (y 0) (m 0) (m 1) t
      else if t > x 4 then hermite_blend (x 4) (x 5) (y 4) (m 4) (m 5) t
      else if t > x 3 then hermite_blend (x 3) (x 4) (y 3) (m 3) (m 4) t
      else if t > x 2 then hermite_blend (x 2) (x 3) (y 2) (m 2) (m 3) t
      else hermite_blend (x 1) (x 2) (y 1) (m 1) (m 2) t)"

text \<open>
  The same curve with the comparisons of \<^verbatim>\<open>float3::setOnLimit\<close>, which takes the upper
  value when the input is not below the limit.
\<close>

definition midtone_curve_master :: "(nat \<Rightarrow> float) \<Rightarrow> (nat \<Rightarrow> float) \<Rightarrow> (nat \<Rightarrow> float) \<Rightarrow> float \<Rightarrow> float" where
  "midtone_curve_master x y m t =
     (if t < x 0 then (t - x 0) * m 0 + y 0
      else if \<not> t < x 5 then (t - x 5) * m 5 + y 5
      else if t < x 1 then hermite_blend (x 0) (x 1) (y 0) (m 0) (m 1) t
      else if \<not> t < x 4 then hermite_blend (x 4) (x 5) (y 4) (m 4) (m 5) t
      else if \<not> t < x 3 then hermite_blend (x 3) (x 4) (y 3) (m 3) (m 4) t
      else if \<not> t < x 2 then hermite_blend (x 2) (x 3) (y 2) (m 2) (m 3) t
      else hermite_blend (x 1) (x 2) (y 1) (m 1) (m 2) t)"

subsection \<open>The symmetric contrast in the words of the specification\<close>

text \<open>The multiplier that the contrast control is remapped to.\<close>

definition effective_contrast :: "float \<Rightarrow> float" where
  "effective_contrast contrast =
     (if contrast > 1 then 1 / (1.8125 - 0.8125 * min contrast 1.99)
      else 0.28125 + 0.71875 * max contrast 0.01)"

text \<open>
  The corrected regions: below a breakpoint of the bottom end, or not below a breakpoint
  of the top end. The arguments are the arrays \<^verbatim>\<open>m_scX\<close>, \<^verbatim>\<open>m_scY\<close> and
  \<^verbatim>\<open>m_scM\<close>; row 0 is the top end and row 1 the bottom end.
\<close>

definition in_corrected_region :: "(nat \<Rightarrow> nat \<Rightarrow> float) \<Rightarrow> float \<Rightarrow> bool" where
  "in_corrected_region scX t = (t < scX 1 1 \<or> t < scX 1 2 \<or> scX 0 1 \<le> t \<or> scX 0 2 \<le> t)"

text \<open>The value in a corrected region, from the input and the correction coefficients.\<close>

definition contrast_correction ::
  "(nat \<Rightarrow> nat \<Rightarrow> float) \<Rightarrow> (nat \<Rightarrow> nat \<Rightarrow> float) \<Rightarrow> (nat \<Rightarrow> nat \<Rightarrow> float) \<Rightarrow> float \<Rightarrow> float" where
  "contrast_correction scX scY scM t =
     (if t < scX 1 1 then scY 1 1 + (t - scX 1 1) * scM 1 0
      else if t < scX 1 2 then hermite_blend (scX 1 1) (scX 1 2) (scY 1 1) (scM 1 0) (scM 1 1) t
      else if t < scX 0 2 then hermite_blend (scX 0 1) (scX 0 2) (scY 0 1) (scM 0 0) (scM 0 1) t
      else scY 0 2 + (t - scX 0 2) * scM 0 1)"

subsection \<open>The order of the stages in the words of the specification\<close>

datatype stage =
    Midtone RGBMChannel
  | Highlight RGBMChannel
  | White RGBMChannel
  | Shadow RGBMChannel
  | Black RGBMChannel
  | SymmetricContrast

fun run_stage :: "GradingTone \<Rightarrow> GradingTonePreRender \<Rightarrow> nat \<Rightarrow> stage \<Rightarrow> mem \<Rightarrow> mem" where
  "run_stage v vpr out (Midtone channel) mem = mids v vpr channel out mem"
| "run_stage v vpr out (Highlight channel) mem = highlightShadow v vpr channel False out mem"
| "run_stage v vpr out (White channel) mem = whiteBlack v vpr channel False out mem"
| "run_stage v vpr out (Shadow channel) mem = highlightShadow v vpr channel True out mem"
| "run_stage v vpr out (Black channel) mem = whiteBlack v vpr channel True out mem"
| "run_stage v vpr out SymmetricContrast mem = scontrast v vpr out mem"

definition stage_order :: "stage list" where
  "stage_order =
     [Midtone R, Midtone G, Midtone B, Midtone M,
      Highlight R, Highlight G, Highlight B, Highlight M,
      White R, White G, White B, White M,
      Shadow R, Shadow G, Shadow B, Shadow M,
      Black R, Black G, Black B, Black M,
      SymmetricContrast]"

text \<open>The stages in their order, each on the store the one before it left.\<close>

definition run_stages :: "GradingTone \<Rightarrow> GradingTonePreRender \<Rightarrow> nat \<Rightarrow> mem \<Rightarrow> mem" where
  "run_stages v vpr out mem = fold (run_stage v vpr out) stage_order mem"

text \<open>
  A pixel function on the pixels 0 to \<open>numPixels - 1\<close> of the two buffers, in this order.
\<close>

definition for_each_pixel :: "(nat \<Rightarrow> nat \<Rightarrow> mem \<Rightarrow> mem) \<Rightarrow> nat \<Rightarrow> nat \<Rightarrow> nat \<Rightarrow> mem \<Rightarrow> mem" where
  "for_each_pixel f inImg outImg numPixels mem =
     fold (\<lambda>idx. f (inImg + 4 * idx) (outImg + 4 * idx)) [0..<numPixels] mem"

subsection \<open>Example data\<close>

text \<open>Every control at its neutral value.\<close>

definition neutral_tone :: GradingTone where
  "neutral_tone =
     \<lparr>m_midtones = (\<lambda>c. 1), m_highlights = (\<lambda>c. 1), m_shadows = (\<lambda>c. 1),
      m_whites = (\<lambda>c. 1), m_blacks = (\<lambda>c. 1), m_scontrast = 1\<rparr>"

text \<open>
  A table with the same rows for every channel. Its midtone curve has a jump at the
  breakpoint \<open>0.3\<close>, where the segment from the left ends at \<open>0.3\<close> and the ordinate is
  \<open>0.35\<close>, and is continuous at the breakpoint \<open>0.5\<close>.
\<close>

definition example_table :: GradingTonePreRender where
  "example_table =
     \<lparr>m_midX = (\<lambda>c i. [0, 0.1, 0.3, 0.5, 0.8, 1] ! i),
      m_midY = (\<lambda>c i. [0, 0.1, 0.35, 0.55, 0.85, 1.05] ! i),
      m_midM = (\<lambda>c i. 1),
      m_hsX = (\<lambda>s c i. [0.2, 0.5, 0.8] ! i),
      m_hsY = (\<lambda>s c i. [0.2, 0.5, 0.8] ! i),
      m_hsM = (\<lambda>s c i. 1),
      m_wbX = (\<lambda>s c i. [0.4, 0.9] ! i),
      m_wbY = (\<lambda>s c i. [0.4, 0.9] ! i),
      m_wbM = (\<lambda>s c i. 1),
      m_wbGain = (\<lambda>s c. 1),
      m_scX = (\<lambda>e i. if e = 0 then [0, 0.8, 0.9, 1] ! i else [0, 0.1, 0.2, 1] ! i),
      m_scY = (\<lambda>e i. if e = 0 then [0, 0.8, 0.9, 1] ! i else [0, 0.1, 0.2, 1] ! i),
      m_scM = (\<lambda>e i. [0.5, 0.25] ! i),
      m_pivot = 0.4\<rparr>"

text \<open>A store with one pixel at cell 0: red 0.3, green 0.5, blue 70000, alpha 0.25.\<close>

definition example_mem :: mem where
  "example_mem = (\<lambda>a. 0)(0 := 0.3, 1 := 0.5, 2 := 70000, 3 := 0.25)"

text \<open>
  A store with one pixel at cell 0 that is black and whose alpha is the breakpoint of the
  change to the log encoding.
\<close>

definition alpha_example_mem :: mem where
  "alpha_example_mem = (\<lambda>a. 0)(3 := 0.0041318374739483946)"

text \<open>
  A table with the same rows for every channel whose midtone curve is continuous at every
  breakpoint: each segment ends at the ordinate of the next breakpoint.
\<close>

definition continuous_table :: GradingTonePreRender where
  "continuous_table =
     example_table
       \<lparr>m_midX := (\<lambda>c i. [0, 0.1, 0.3, 0.5, 0.8, 1] ! i),
        m_midY := (\<lambda>c i. [0, 0.115, 0.315, 0.485, 0.755, 0.975] ! i),
        m_midM := (\<lambda>c i. [1.2, 1.1, 0.9, 0.8, 1, 1.2] ! i)\<rparr>"

text \<open>
  A pixel of float values at cell 0: red is NaN, green is the positive infinity, blue is
  70000, alpha is 0.25.
\<close>

definition ieee_example_mem :: "nat \<Rightarrow> ieee" where
  "ieee_example_mem =
     (\<lambda>a. Finite 0)(0 := NaN, 1 := PlusInfinity, 2 := Finite 70000, 3 := Finite 0.25)"

section \<open>Properties\<close>

text \<open>
  C1. Calling \<^verbatim>\<open>apply\<close> on either renderer of the inverse direction, the plain one or
  the one of the linear style, throws the exception that says the inverse is not
  implemented, whatever the buffers and the pixel count are, and leaves every cell of the
  store as it was. These two are the renderers that are chosen for the inverse direction.
\<close>

theorem inverse_apply_throws:
  "OpCPU_apply USE_SSE (GradingToneRevOpCPU m_gt) inImg outImg numPixels mem
     = (Some (Exception ''GradingTone inverse CPU not implemented.''), mem)
   \<and> OpCPU_apply USE_SSE (GradingToneLinearRevOpCPU m_gt) inImg outImg numPixels mem
     = (Some (Exception ''GradingTone inverse CPU not implemented.''), mem)
   \<and> (case GetGradingToneCPURenderer (tone\<lparr>getDirection := TRANSFORM_DIR_INVERSE\<rparr>) of
        Inl e \<Rightarrow> False
      | Inr op \<Rightarrow> OpCPU_apply USE_SSE op inImg outImg numPixels mem
                  = (Some (Exception ''GradingTone inverse CPU not implemented.''), mem))"
  by (simp add: GradingToneRevOpCPU_apply_def GradingToneLinearRevOpCPU_apply_def
      GetGradingToneCPURenderer_def)

subsection \<open>The conversion to float\<close>

text \<open>
  A number that is a float converts to itself; a number between two floats converts to
  the nearer one, as the control \<open>1 + 2^(-30)\<close> converts to 1.
\<close>

lemma floor_log2:
  assumes "(2::real) powi e \<le> x" and "x < 2 powi (e + 1)"
  shows "\<lfloor>log 2 x\<rfloor> = e"
proof -
  have pos: "0 < x"
    using assms(1) by (rule less_le_trans [rotated]) simp
  have 1: "(2::real) powr of_int e = 2 powi e"
    by (rule powr_real_of_int') simp_all
  have 2: "(2::real) powr of_int (e + 1) = 2 powi (e + 1)"
    by (rule powr_real_of_int') simp_all
  have "\<lfloor>log 2 x\<rfloor> = e \<longleftrightarrow> 2 powr of_int e \<le> x \<and> x < 2 powr of_int (e + 1)"
    using pos by (intro floor_log_eq_powr_iff) simp_all
  with assms show ?thesis
    unfolding 1 2 by simp
qed

lemma round_to_even_of_int: "round_to_even (of_int n) = n"
  by (simp add: round_to_even_def)

lemma static_cast_float_representable:
  assumes "x = of_int n * 2 powi (e - 23)"
    and "2 powi e \<le> \<bar>x\<bar>" and "\<bar>x\<bar> < 2 powi (e + 1)" and "- 126 \<le> e"
  shows "static_cast_float x = x"
proof -
  have "\<lfloor>log 2 \<bar>x\<bar>\<rfloor> = e"
    using assms(2,3) by (rule floor_log2)
  then have ex: "float_exponent x = e"
    using assms(4) by (simp add: float_exponent_def)
  have nz: "(2::real) powi (e - 23) \<noteq> 0" by simp
  have "x / 2 powi (e - 23) = of_int n"
    unfolding assms(1) using nz by simp
  then show ?thesis
    unfolding static_cast_float_def ex
    by (simp add: round_to_even_of_int assms(1))
qed

lemma static_cast_float_1: "static_cast_float 1 = 1"
  by (rule static_cast_float_representable [where n = 8388608 and e = 0])
     (simp_all add: power_int_def power_one_over)

lemma static_cast_float_3_2: "static_cast_float (3 / 2) = 3 / 2"
  by (rule static_cast_float_representable [where n = 12582912 and e = 0])
     (simp_all add: power_int_def power_one_over)

lemma static_cast_float_1_2: "static_cast_float (1 / 2) = 1 / 2"
  by (rule static_cast_float_representable [where n = 8388608 and e = "- 1"])
     (simp_all add: power_int_def power_one_over)

lemma static_cast_float_near_1: "static_cast_float (1 + 1 / 2 ^ 30) = 1"
proof -
  have "\<lfloor>log 2 \<bar>1 + 1 / 2 ^ 30 :: real\<bar>\<rfloor> = 0"
    by (rule floor_log2) (simp_all add: power_int_def power_one_over)
  then have ex: "float_exponent (1 + 1 / 2 ^ 30) = 0"
    by (simp add: float_exponent_def)
  have fl: "\<lfloor>(1 + 1 / 2 ^ 30) * 8388608 :: real\<rfloor> = 8388608"
    by (rule floor_unique) simp_all
  have q: "(2::real) powi (0 - 23) = 1 / 8388608"
    by (simp add: power_int_def power_one_over)
  have "round_to_even ((1 + 1 / 2 ^ 30) / (1 / 8388608)) = 8388608"
    unfolding round_to_even_def using fl by (simp add: Let_def)
  then show ?thesis
    unfolding static_cast_float_def ex q by simp
qed

subsection \<open>What a curve evaluator writes and what it reads\<close>

lemma mids_frame:
  "a \<noteq> out \<Longrightarrow> a \<noteq> out + 1 \<Longrightarrow> a \<noteq> out + 2 \<Longrightarrow> mids v vpr channel out mem a = mem a"
  by (cases channel) (simp_all add: mids_def Let_def)

lemma ComputeHS_float_frame:
  "a \<noteq> out + chan channel \<Longrightarrow>
   ComputeHS at_float channel out val x0 x1 x2 y0 y1 y2 m0 m2 t mem a = mem a"
  by (simp add: ComputeHS_def Let_def at_float_def float_Set_def)

lemma ComputeHS_float3_frame:
  "a \<noteq> out \<Longrightarrow> a \<noteq> out + 1 \<Longrightarrow> a \<noteq> out + 2 \<Longrightarrow>
   ComputeHS at_float3 channel out val x0 x1 x2 y0 y1 y2 m0 m2 t mem a = mem a"
  by (simp add: ComputeHS_def Let_def at_float3_def float3_Set_def)

lemma highlightShadow_frame:
  "a \<noteq> out \<Longrightarrow> a \<noteq> out + 1 \<Longrightarrow> a \<noteq> out + 2 \<Longrightarrow>
   highlightShadow v vpr channel isShadow out mem a = mem a"
  by (cases channel)
     (simp_all add: highlightShadow_def Let_def ComputeHS_float_frame ComputeHS_float3_frame)

lemma ComputeWB_float_frame:
  "a \<noteq> out + chan channel \<Longrightarrow>
   ComputeWB at_float channel isBlack out val x0 x1 y0 y1 m0 m1 gain t mem a = mem a"
  by (simp add: ComputeWB_def Let_def at_float_def float_Set_def)

lemma ComputeWB_float3_frame:
  "a \<noteq> out \<Longrightarrow> a \<noteq> out + 1 \<Longrightarrow> a \<noteq> out + 2 \<Longrightarrow>
   ComputeWB at_float3 channel isBlack out val x0 x1 y0 y1 m0 m1 gain t mem a = mem a"
  by (simp add: ComputeWB_def Let_def at_float3_def float3_Set_def)

lemma whiteBlack_frame:
  "a \<noteq> out \<Longrightarrow> a \<noteq> out + 1 \<Longrightarrow> a \<noteq> out + 2 \<Longrightarrow>
   whiteBlack v vpr channel isBlack out mem a = mem a"
  by (cases channel)
     (simp_all add: whiteBlack_def Let_def ComputeWB_float_frame ComputeWB_float3_frame)

lemma scontrast_frame:
  "a \<noteq> out \<Longrightarrow> a \<noteq> out + 1 \<Longrightarrow> a \<noteq> out + 2 \<Longrightarrow> scontrast v vpr out mem a = mem a"
  by (simp add: scontrast_def Let_def)

lemma ClampMaxRGB_frame:
  "a \<noteq> out \<Longrightarrow> a \<noteq> out + 1 \<Longrightarrow> a \<noteq> out + 2 \<Longrightarrow> ClampMaxRGB out mem a = mem a"
  by (simp add: ClampMaxRGB_def Let_def)

lemma ClampMaxRGB_value:
  assumes "c < 3"
  shows "ClampMaxRGB out mem (out + c) = (if 65504 < mem (out + c) then 65504 else mem (out + c))"
proof -
  from assms consider "c = 0" | "c = 1" | "c = 2" by linarith
  then show ?thesis
    by cases (simp_all add: ClampMaxRGB_def Let_def std_min_def)
qed

lemma mids_neutral: "m_midtones v channel = 1 \<Longrightarrow> mids v vpr channel out mem = mem"
  by (simp add: mids_def Clamp_def GetChannelValue_def)

lemma highlights_neutral:
  "m_highlights v channel = 1 \<Longrightarrow> highlightShadow v vpr channel False out mem = mem"
  by (simp add: highlightShadow_def GetChannelValue_def)

lemma shadows_neutral:
  "m_shadows v channel = 1 \<Longrightarrow> highlightShadow v vpr channel True out mem = mem"
  by (simp add: highlightShadow_def GetChannelValue_def)

lemma ComputeWB_neutral:
  "(if \<not> isBlack then val else 2 - val) = 1 \<Longrightarrow>
   ComputeWB T channel isBlack out val x0 x1 y0 y1 m0 m1 gain t mem = mem"
  by (simp add: ComputeWB_def)

lemma whites_neutral: "m_whites v channel = 1 \<Longrightarrow> whiteBlack v vpr channel False out mem = mem"
  by (simp add: whiteBlack_def GetChannelValue_def ComputeWB_neutral Let_def)

lemma blacks_neutral: "m_blacks v channel = 1 \<Longrightarrow> whiteBlack v vpr channel True out mem = mem"
  by (simp add: whiteBlack_def GetChannelValue_def ComputeWB_neutral Let_def)

lemma scontrast_neutral: "m_scontrast v = 1 \<Longrightarrow> scontrast v vpr out mem = mem"
  by (simp add: scontrast_def static_cast_float_1)

lemma mids_reads:
  "m_midtones v' = m_midtones v \<Longrightarrow> mids v' vpr channel out mem = mids v vpr channel out mem"
  by (simp add: mids_def)

lemma highlights_reads:
  "m_highlights v' = m_highlights v \<Longrightarrow>
   highlightShadow v' vpr channel False out mem = highlightShadow v vpr channel False out mem"
  by (simp add: highlightShadow_def)

lemma shadows_reads:
  "m_shadows v' = m_shadows v \<Longrightarrow>
   highlightShadow v' vpr channel True out mem = highlightShadow v vpr channel True out mem"
  by (simp add: highlightShadow_def)

lemma whites_reads:
  "m_whites v' = m_whites v \<Longrightarrow>
   whiteBlack v' vpr channel False out mem = whiteBlack v vpr channel False out mem"
  by (simp add: whiteBlack_def)

lemma blacks_reads:
  "m_blacks v' = m_blacks v \<Longrightarrow>
   whiteBlack v' vpr channel True out mem = whiteBlack v vpr channel True out mem"
  by (simp add: whiteBlack_def)

lemma scontrast_reads:
  "m_scontrast v' = m_scontrast v \<Longrightarrow> scontrast v' vpr out mem = scontrast v vpr out mem"
  by (simp add: scontrast_def)

subsection \<open>The value of the midtone curve\<close>

lemma hermite_blend_left: "hermite_blend x_left x_right y_left m_left m_right x_left = y_left"
  by (simp add: hermite_blend_def)

lemma mids_scalar_value:
  assumes "channel \<noteq> M"
    and "Clamp (GetChannelValue (m_midtones v) channel) 0.01 1.99 \<noteq> 1"
    and "increasing6 (m_midX vpr (chan channel))"
  shows "mids v vpr channel out mem (out + chan channel) =
           midtone_curve (m_midX vpr (chan channel)) (m_midY vpr (chan channel))
                   (m_midM vpr (chan channel)) (mem (out + chan channel))"
  using assms
  by (auto simp add: mids_def Let_def midtone_curve_def hermite_blend_def increasing6_def)

lemma mids_master_value:
  assumes "Clamp (GetChannelValue (m_midtones v) M) 0.01 1.99 \<noteq> 1"
    and "increasing6 (m_midX vpr 3)"
    and "c < 3"
  shows "mids v vpr M out mem (out + c) =
           midtone_curve_master (m_midX vpr 3) (m_midY vpr 3) (m_midM vpr 3) (mem (out + c))"
proof -
  from \<open>c < 3\<close> consider "c = 0" | "c = 1" | "c = 2" by linarith
  then show ?thesis
    using assms(1,2)
    by cases
      (auto simp add: mids_def Let_def midtone_curve_master_def hermite_blend_def increasing6_def
        float3_load_def float3_setOnLimit_def splat_def
        plus_float3_def minus_float3_def times_float3_def divide_float3_def)
qed

subsection \<open>Neutral controls\<close>

text \<open>
  C2. A band whose control is at the neutral value 1 leaves the store exactly as it is:
  the midtones, the highlights, the shadows, the whites and the blacks for the channel
  in question, and the symmetric contrast. An evaluator reads no control but its own:
  whatever the controls of the other bands are set to, in particular to their neutral
  values, its result is the same.
\<close>

theorem neutral_control_identity:
  "(m_midtones v channel = 1 \<longrightarrow> mids v vpr channel out mem = mem)
 \<and> (m_highlights v channel = 1 \<longrightarrow> highlightShadow v vpr channel False out mem = mem)
 \<and> (m_shadows v channel = 1 \<longrightarrow> highlightShadow v vpr channel True out mem = mem)
 \<and> (m_whites v channel = 1 \<longrightarrow> whiteBlack v vpr channel False out mem = mem)
 \<and> (m_blacks v channel = 1 \<longrightarrow> whiteBlack v vpr channel True out mem = mem)
 \<and> (m_scontrast v = 1 \<longrightarrow> scontrast v vpr out mem = mem)
 \<and> mids (v\<lparr>m_highlights := h, m_shadows := s, m_whites := w, m_blacks := b, m_scontrast := k\<rparr>)
      vpr channel out mem = mids v vpr channel out mem
 \<and> highlightShadow (v\<lparr>m_midtones := d, m_shadows := s, m_whites := w, m_blacks := b, m_scontrast := k\<rparr>)
      vpr channel False out mem = highlightShadow v vpr channel False out mem
 \<and> highlightShadow (v\<lparr>m_midtones := d, m_highlights := h, m_whites := w, m_blacks := b, m_scontrast := k\<rparr>)
      vpr channel True out mem = highlightShadow v vpr channel True out mem
 \<and> whiteBlack (v\<lparr>m_midtones := d, m_highlights := h, m_shadows := s, m_blacks := b, m_scontrast := k\<rparr>)
      vpr channel False out mem = whiteBlack v vpr channel False out mem
 \<and> whiteBlack (v\<lparr>m_midtones := d, m_highlights := h, m_shadows := s, m_whites := w, m_scontrast := k\<rparr>)
      vpr channel True out mem = whiteBlack v vpr channel True out mem
 \<and> scontrast (v\<lparr>m_midtones := d, m_highlights := h, m_shadows := s, m_whites := w, m_blacks := b\<rparr>)
      vpr out mem = scontrast v vpr out mem"
proof -
  have 1: "mids (v\<lparr>m_highlights := h, m_shadows := s, m_whites := w, m_blacks := b, m_scontrast := k\<rparr>)
      vpr channel out mem = mids v vpr channel out mem"
    by (rule mids_reads) simp
  have 2: "highlightShadow (v\<lparr>m_midtones := d, m_shadows := s, m_whites := w, m_blacks := b, m_scontrast := k\<rparr>)
      vpr channel False out mem = highlightShadow v vpr channel False out mem"
    by (rule highlights_reads) simp
  have 3: "highlightShadow (v\<lparr>m_midtones := d, m_highlights := h, m_whites := w, m_blacks := b, m_scontrast := k\<rparr>)
      vpr channel True out mem = highlightShadow v vpr channel True out mem"
    by (rule shadows_reads) simp
  have 4: "whiteBlack (v\<lparr>m_midtones := d, m_highlights := h, m_shadows := s, m_blacks := b, m_scontrast := k\<rparr>)
      vpr channel False out mem = whiteBlack v vpr channel False out mem"
    by (rule whites_reads) simp
  have 5: "whiteBlack (v\<lparr>m_midtones := d, m_highlights := h, m_shadows := s, m_whites := w, m_scontrast := k\<rparr>)
      vpr channel True out mem = whiteBlack v vpr channel True out mem"
    by (rule blacks_reads) simp
  have 6: "scontrast (v\<lparr>m_midtones := d, m_highlights := h, m_shadows := s, m_whites := w, m_blacks := b\<rparr>)
      vpr out mem = scontrast v vpr out mem"
    by (rule scontrast_reads) simp
  show ?thesis
    using 1 2 3 4 5 6
    by (simp add: mids_neutral highlights_neutral shadows_neutral whites_neutral blacks_neutral
        scontrast_neutral)
qed

theorem neutral_control_identity_witness:
  "m_midtones neutral_tone G = 1 \<and> mids neutral_tone example_table G 0 example_mem = example_mem
 \<and> m_highlights neutral_tone G = 1 \<and> highlightShadow neutral_tone example_table G False 0 example_mem = example_mem
 \<and> m_shadows neutral_tone G = 1 \<and> highlightShadow neutral_tone example_table G True 0 example_mem = example_mem
 \<and> m_whites neutral_tone G = 1 \<and> whiteBlack neutral_tone example_table G False 0 example_mem = example_mem
 \<and> m_blacks neutral_tone G = 1 \<and> whiteBlack neutral_tone example_table G True 0 example_mem = example_mem
 \<and> m_scontrast neutral_tone = 1 \<and> scontrast neutral_tone example_table 0 example_mem = example_mem"
  using neutral_control_identity [of neutral_tone G example_table 0 example_mem]
  by (simp add: neutral_tone_def)

subsection \<open>The contract of the midtone curve\<close>

text \<open>
  C8. For a channel other than master: the control, clamped to the interval from 0.01
  to 1.99, being different from 1, and the breakpoints increasing, \<^verbatim>\<open>mids\<close> replaces
  the component \<open>t\<close> of the channel by the value of the curve of the specification:
  one of five blends between neighbouring breakpoints, chosen by strict comparisons of
  \<open>t\<close> with \<open>x 1\<close> to \<open>x 4\<close>, and a line of slope \<open>m 0\<close> from \<open>y 0\<close> below \<open>x 0\<close>
  and of slope \<open>m 5\<close> from \<open>y 5\<close> above \<open>x 5\<close>. No other cell changes.
\<close>

theorem midtone_curve_contract:
  assumes "channel \<noteq> M"
    and "Clamp (GetChannelValue (m_midtones v) channel) 0.01 1.99 \<noteq> 1"
    and "increasing6 (m_midX vpr (chan channel))"
  shows "0.01 \<le> Clamp (GetChannelValue (m_midtones v) channel) 0.01 1.99
       \<and> Clamp (GetChannelValue (m_midtones v) channel) 0.01 1.99 \<le> 1.99
       \<and> mids v vpr channel out mem =
           mem(out + chan channel :=
                 midtone_curve (m_midX vpr (chan channel)) (m_midY vpr (chan channel))
                   (m_midM vpr (chan channel)) (mem (out + chan channel)))"
proof -
  have "mids v vpr channel out mem =
           mem(out + chan channel :=
                 midtone_curve (m_midX vpr (chan channel)) (m_midY vpr (chan channel))
                   (m_midM vpr (chan channel)) (mem (out + chan channel)))"
    using assms
    by (auto simp add: mids_def Let_def midtone_curve_def hermite_blend_def increasing6_def)
  then show ?thesis by (simp add: Clamp_def)
qed

theorem midtone_curve_contract_witness:
  "G \<noteq> M
 \<and> Clamp (GetChannelValue (m_midtones (neutral_tone\<lparr>m_midtones := (\<lambda>c. 1.4)\<rparr>)) G) 0.01 1.99 \<noteq> 1
 \<and> increasing6 (m_midX example_table (chan G))
 \<and> mids (neutral_tone\<lparr>m_midtones := (\<lambda>c. 1.4)\<rparr>) example_table G 0 example_mem
     = example_mem(1 := 0.55)"
  using midtone_curve_contract [of G "neutral_tone\<lparr>m_midtones := (\<lambda>c. 1.4)\<rparr>" example_table 0 example_mem]
  by (simp add: neutral_tone_def example_table_def example_mem_def increasing6_def
      Clamp_def GetChannelValue_def midtone_curve_def hermite_blend_def)

subsection \<open>The master path and the scalar path of the midtone curve\<close>

text \<open>
  C7. The master path and the scalar path of the midtone curve are meant to give a
  component the same value. At an input that is exactly one of the breakpoints \<open>x 2\<close>
  to \<open>x 5\<close> they do not evaluate the same expression. The scalar path asks whether the
  input is above the breakpoint, and so stays on the segment that ends there: its value
  is the blend of that segment at its end. The master path asks in \<^verbatim>\<open>setOnLimit\<close>
  whether the input is below the breakpoint, and so takes the segment, or the line, that
  starts there: its value is the ordinate of the breakpoint. For a continuous curve the
  two are the same number in exact arithmetic; in the arithmetic of \<^verbatim>\<open>float\<close> the
  blend is rounded and need not be the ordinate.
\<close>

theorem mids_paths_at_breakpoint:
  assumes "channel \<noteq> M"
    and "m_midX vpr (chan channel) = m_midX vpr (chan M)"
    and "m_midY vpr (chan channel) = m_midY vpr (chan M)"
    and "m_midM vpr (chan channel) = m_midM vpr (chan M)"
    and "Clamp (GetChannelValue (m_midtones v) channel) 0.01 1.99 \<noteq> 1"
    and "Clamp (GetChannelValue (m_midtones v) M) 0.01 1.99 \<noteq> 1"
    and "increasing6 (m_midX vpr (chan M))"
  shows
    "(mem (out + chan channel) = m_midX vpr (chan M) 2 \<longrightarrow>
        mids v vpr channel out mem (out + chan channel)
          = hermite_blend (m_midX vpr (chan M) 1) (m_midX vpr (chan M) 2) (m_midY vpr (chan M) 1)
              (m_midM vpr (chan M) 1) (m_midM vpr (chan M) 2) (m_midX vpr (chan M) 2)
      \<and> mids v vpr M out mem (out + chan channel) = m_midY vpr (chan M) 2)
   \<and> (mem (out + chan channel) = m_midX vpr (chan M) 3 \<longrightarrow>
        mids v vpr channel out mem (out + chan channel)
          = hermite_blend (m_midX vpr (chan M) 2) (m_midX vpr (chan M) 3) (m_midY vpr (chan M) 2)
              (m_midM vpr (chan M) 2) (m_midM vpr (chan M) 3) (m_midX vpr (chan M) 3)
      \<and> mids v vpr M out mem (out + chan channel) = m_midY vpr (chan M) 3)
   \<and> (mem (out + chan channel) = m_midX vpr (chan M) 4 \<longrightarrow>
        mids v vpr channel out mem (out + chan channel)
          = hermite_blend (m_midX vpr (chan M) 3) (m_midX vpr (chan M) 4) (m_midY vpr (chan M) 3)
              (m_midM vpr (chan M) 3) (m_midM vpr (chan M) 4) (m_midX vpr (chan M) 4)
      \<and> mids v vpr M out mem (out + chan channel) = m_midY vpr (chan M) 4)
   \<and> (mem (out + chan channel) = m_midX vpr (chan M) 5 \<longrightarrow>
        mids v vpr channel out mem (out + chan channel)
          = hermite_blend (m_midX vpr (chan M) 4) (m_midX vpr (chan M) 5) (m_midY vpr (chan M) 4)
              (m_midM vpr (chan M) 4) (m_midM vpr (chan M) 5) (m_midX vpr (chan M) 5)
      \<and> mids v vpr M out mem (out + chan channel) = m_midY vpr (chan M) 5)"
proof -
  have inc: "increasing6 (m_midX vpr 3)" using assms(7) by simp
  have c3: "chan channel < 3" using assms(1) by (cases channel) simp_all
  have master: "mids v vpr M out mem (out + chan channel) =
          midtone_curve_master (m_midX vpr 3) (m_midY vpr 3) (m_midM vpr 3) (mem (out + chan channel))"
    using mids_master_value [OF assms(6) inc c3] .
  have scalar: "mids v vpr channel out mem (out + chan channel) =
          midtone_curve (m_midX vpr 3) (m_midY vpr 3) (m_midM vpr 3) (mem (out + chan channel))"
    using mids_scalar_value [OF assms(1) assms(5)] inc assms(2,3,4) by simp
  show ?thesis
    unfolding master scalar
    using inc
    by (simp add: midtone_curve_master_def midtone_curve_def increasing6_def hermite_blend_left)
qed

theorem mids_paths_at_breakpoint_witness:
  "R \<noteq> M
 \<and> m_midX continuous_table (chan R) = m_midX continuous_table (chan M)
 \<and> m_midY continuous_table (chan R) = m_midY continuous_table (chan M)
 \<and> m_midM continuous_table (chan R) = m_midM continuous_table (chan M)
 \<and> Clamp (GetChannelValue (m_midtones (neutral_tone\<lparr>m_midtones := (\<lambda>c. 1.4)\<rparr>)) R) 0.01 1.99 \<noteq> 1
 \<and> Clamp (GetChannelValue (m_midtones (neutral_tone\<lparr>m_midtones := (\<lambda>c. 1.4)\<rparr>)) M) 0.01 1.99 \<noteq> 1
 \<and> increasing6 (m_midX continuous_table (chan M))
 \<and> example_mem (0 + chan R) = m_midX continuous_table (chan M) 2
 \<and> mids (neutral_tone\<lparr>m_midtones := (\<lambda>c. 1.4)\<rparr>) continuous_table R 0 example_mem (0 + chan R)
     = hermite_blend 0.1 0.3 0.115 1.1 0.9 0.3
 \<and> mids (neutral_tone\<lparr>m_midtones := (\<lambda>c. 1.4)\<rparr>) continuous_table M 0 example_mem (0 + chan R)
     = 0.315"
  using mids_paths_at_breakpoint
          [of R continuous_table "neutral_tone\<lparr>m_midtones := (\<lambda>c. 1.4)\<rparr>" example_mem 0]
  by (simp add: neutral_tone_def continuous_table_def example_table_def example_mem_def
      increasing6_def Clamp_def GetChannelValue_def)

subsection \<open>The corrections of the symmetric contrast\<close>

text \<open>
  C10. With a contrast control that is other than 1 as a \<^verbatim>\<open>float\<close>, the component
  \<open>t\<close> that the stage reads is compared with the breakpoints of the corrections, not the
  value scaled by the contrast. In a corrected region the result is a function of \<open>t\<close>
  and of the correction coefficients alone: another contrast control other than 1 and
  another pivot give the same result there. Outside the corrected regions the result is
  the linear contrast around the pivot.
\<close>

theorem scontrast_corrections:
  assumes "static_cast_float (m_scontrast v) \<noteq> 1" and "c < 3"
  shows "scontrast v vpr out mem (out + c) =
           (if in_corrected_region (m_scX vpr) (mem (out + c))
            then contrast_correction (m_scX vpr) (m_scY vpr) (m_scM vpr) (mem (out + c))
            else (mem (out + c) - m_pivot vpr) * effective_contrast (static_cast_float (m_scontrast v))
                 + m_pivot vpr)
       \<and> (in_corrected_region (m_scX vpr) (mem (out + c)) \<and> static_cast_float (m_scontrast v') \<noteq> 1 \<longrightarrow>
            scontrast v' (vpr\<lparr>m_pivot := p\<rparr>) out mem (out + c) = scontrast v vpr out mem (out + c))"
proof -
  have val: "scontrast w tab out mem (out + c) =
           (if in_corrected_region (m_scX tab) (mem (out + c))
            then contrast_correction (m_scX tab) (m_scY tab) (m_scM tab) (mem (out + c))
            else (mem (out + c) - m_pivot tab) * effective_contrast (static_cast_float (m_scontrast w))
                 + m_pivot tab)"
    if "static_cast_float (m_scontrast w) \<noteq> 1" for w tab
  proof -
    define k where "k = static_cast_float (m_scontrast w)"
    from \<open>c < 3\<close> consider "c = 0" | "c = 1" | "c = 2" by linarith
    then show ?thesis
      using that
      unfolding scontrast_def k_def [symmetric]
      by cases
        (auto simp add: Let_def in_corrected_region_def contrast_correction_def
          effective_contrast_def hermite_blend_def std_min_def std_max_def min_def max_def
          float3_load_def float3_setOnLimit_def splat_def
          plus_float3_def minus_float3_def times_float3_def divide_float3_def)
  qed
  show ?thesis
    using val [of v vpr, OF assms(1)] val [of v' "vpr\<lparr>m_pivot := p\<rparr>"]
    by simp
qed

theorem scontrast_corrections_witness:
  "static_cast_float (m_scontrast (neutral_tone\<lparr>m_scontrast := 1.5\<rparr>)) \<noteq> 1 \<and> (2::nat) < 3
 \<and> in_corrected_region (m_scX example_table) (example_mem (0 + 2))
 \<and> static_cast_float (m_scontrast (neutral_tone\<lparr>m_scontrast := 0.5\<rparr>)) \<noteq> 1
 \<and> scontrast (neutral_tone\<lparr>m_scontrast := 1.5\<rparr>) example_table 0 example_mem (0 + 2) = 17500.675
 \<and> scontrast (neutral_tone\<lparr>m_scontrast := 0.5\<rparr>) (example_table\<lparr>m_pivot := 0.7\<rparr>) 0 example_mem (0 + 2)
     = scontrast (neutral_tone\<lparr>m_scontrast := 1.5\<rparr>) example_table 0 example_mem (0 + 2)"
  using scontrast_corrections [of "neutral_tone\<lparr>m_scontrast := 1.5\<rparr>" 2 example_table 0 example_mem
          "neutral_tone\<lparr>m_scontrast := 0.5\<rparr>" "0.7"]
  by (simp add: neutral_tone_def example_table_def example_mem_def in_corrected_region_def
      contrast_correction_def static_cast_float_3_2 static_cast_float_1_2)

text \<open>
  A control that is not 1 as a \<^verbatim>\<open>double\<close> and converts to the \<^verbatim>\<open>float\<close> 1 is
  neutral: the stage leaves the store as it is.
\<close>

lemma scontrast_narrowed_neutral:
  "scontrast (v\<lparr>m_scontrast := 1 + 1 / 2 ^ 30\<rparr>) vpr out mem = mem"
proof -
  have "static_cast_float (m_scontrast (v\<lparr>m_scontrast := 1 + 1 / 2 ^ 30\<rparr>)) = 1"
    using static_cast_float_near_1 by simp
  then show ?thesis
    by (simp only: scontrast_def Let_def) simp
qed

subsection \<open>The loop of the plain renderer\<close>

lemma ClampMaxRGB_le: "c < 3 \<Longrightarrow> ClampMaxRGB out (mem :: mem) (out + c) \<le> 65504"
  by (simp add: ClampMaxRGB_value)

lemma memcpy_frame: "a < dst \<or> dst + n \<le> a \<Longrightarrow> memcpy dst src n mem a = mem a"
  by (auto simp add: memcpy_def)

lemma memcpy_value: "i < n \<Longrightarrow> memcpy dst src n mem (dst + i) = mem (src + i)"
  by (simp add: memcpy_def)

lemma Fwd_pixel_frame:
  assumes "a < out \<or> out + 4 \<le> a"
  shows "GradingToneFwdOpCPU_pixel v vpr inp out mem a = mem a"
proof -
  from assms have ne: "a \<noteq> out" "a \<noteq> out + 1" "a \<noteq> out + 2" by auto
  show ?thesis
    unfolding GradingToneFwdOpCPU_pixel_def Let_def
    using ne assms
    by (simp add: mids_frame highlightShadow_frame whiteBlack_frame scontrast_frame
        ClampMaxRGB_frame memcpy_frame PixelSize_def)
qed

lemma Fwd_pixel_alpha: "GradingToneFwdOpCPU_pixel v vpr inp out mem (out + 3) = mem (inp + 3)"
  unfolding GradingToneFwdOpCPU_pixel_def Let_def
  by (simp add: mids_frame highlightShadow_frame whiteBlack_frame scontrast_frame
      ClampMaxRGB_frame memcpy_value PixelSize_def)

lemma Fwd_pixel_clamped: "c < 3 \<Longrightarrow> GradingToneFwdOpCPU_pixel v vpr inp out mem (out + c) \<le> 65504"
  unfolding GradingToneFwdOpCPU_pixel_def Let_def
  by (rule ClampMaxRGB_le)

lemma Fwd_loop_frame:
  "a < out \<or> out + 4 * n \<le> a \<Longrightarrow> GradingToneFwdOpCPU_loop v vpr inp out n mem a = mem a"
proof (induction n arbitrary: inp out mem)
  case 0
  then show ?case by simp
next
  case (Suc n)
  from Suc.prems have 1: "a < out + 4 \<or> out + 4 + 4 * n \<le> a" and 2: "a < out \<or> out + 4 \<le> a"
    by auto
  show ?case
    by (simp add: Suc.IH [OF 1] Fwd_pixel_frame [OF 2])
qed

lemma Fwd_loop_clamped:
  "k < n \<Longrightarrow> c < 3 \<Longrightarrow> GradingToneFwdOpCPU_loop v vpr inp out n mem (out + 4 * k + c) \<le> 65504"
proof (induction n arbitrary: inp out mem k)
  case 0
  then show ?case by simp
next
  case (Suc n)
  show ?case
  proof (cases k)
    case 0
    have "out + c < out + 4" using Suc.prems(2) by simp
    then have "GradingToneFwdOpCPU_loop v vpr (inp + 4) (out + 4) n
                 (GradingToneFwdOpCPU_pixel v vpr inp out mem) (out + c)
               = GradingToneFwdOpCPU_pixel v vpr inp out mem (out + c)"
      by (intro Fwd_loop_frame) simp
    with 0 show ?thesis
      using Fwd_pixel_clamped [OF Suc.prems(2)] by simp
  next
    case (Suc k')
    then have "k' < n" using Suc.prems(1) by simp
    from Suc.IH [OF this Suc.prems(2), of "inp + 4" "out + 4" "GradingToneFwdOpCPU_pixel v vpr inp out mem"]
    show ?thesis using Suc by (simp add: algebra_simps)
  qed
qed

lemma Fwd_loop_alpha:
  "inp = out \<or> inp + 4 * n \<le> out \<or> out + 4 * n \<le> inp \<Longrightarrow> k < n \<Longrightarrow>
   GradingToneFwdOpCPU_loop v vpr inp out n mem (out + 4 * k + 3) = mem (inp + 4 * k + 3)"
proof (induction n arbitrary: inp out mem k)
  case 0
  then show ?case by simp
next
  case (Suc n)
  show ?case
  proof (cases k)
    case 0
    have "GradingToneFwdOpCPU_loop v vpr (inp + 4) (out + 4) n
                 (GradingToneFwdOpCPU_pixel v vpr inp out mem) (out + 3)
               = GradingToneFwdOpCPU_pixel v vpr inp out mem (out + 3)"
      by (intro Fwd_loop_frame) simp
    with 0 show ?thesis by (simp add: Fwd_pixel_alpha)
  next
    case (Suc k')
    then have k': "k' < n" using Suc.prems(2) by simp
    have sep: "inp + 4 = out + 4 \<or> inp + 4 + 4 * n \<le> out + 4 \<or> out + 4 + 4 * n \<le> inp + 4"
      using Suc.prems(1) by auto
    have "inp + 4 + 4 * k' + 3 < out \<or> out + 4 \<le> inp + 4 + 4 * k' + 3"
      using Suc.prems(1) k' by auto
    then have "GradingToneFwdOpCPU_pixel v vpr inp out mem (inp + 4 + 4 * k' + 3) = mem (inp + 4 + 4 * k' + 3)"
      by (rule Fwd_pixel_frame)
    with Suc.IH [OF sep k', of "GradingToneFwdOpCPU_pixel v vpr inp out mem"]
    show ?thesis using Suc by (simp add: algebra_simps)
  qed
qed

subsection \<open>The loop of the renderer of the linear style\<close>

lemma lin_to_log_frame:
  assumes "a < out \<or> out + 4 \<le> a"
  shows "lin_to_log USE_SSE inp out mem a = mem a"
proof -
  from assms have ne: "a \<noteq> out" "a \<noteq> out + 1" "a \<noteq> out + 2" "a \<noteq> out + 3" by auto
  show ?thesis
    by (cases USE_SSE)
       (simp_all only: lin_to_log_def Let_def mm_storeu_ps_def fun_upd_apply ne if_False if_True)
qed

lemma log_to_lin_frame:
  assumes "a < out \<or> out + 4 \<le> a"
  shows "log_to_lin USE_SSE out mem a = mem a"
proof -
  from assms have ne: "a \<noteq> out" "a \<noteq> out + 1" "a \<noteq> out + 2" "a \<noteq> out + 3" by auto
  show ?thesis
    by (cases USE_SSE)
       (simp_all only: log_to_lin_def Let_def mm_storeu_ps_def fun_upd_apply ne if_False if_True)
qed

lemma lin_to_log_scalar_alpha:
  assumes "inp = out \<or> inp + 4 \<le> out \<or> out + 4 \<le> inp"
  shows "lin_to_log False inp out mem (out + 3) = mem (inp + 3)"
proof -
  from assms have ne: "inp + 3 \<noteq> out" "inp + 3 \<noteq> out + 1" "inp + 3 \<noteq> out + 2" by auto
  show ?thesis
    by (simp only: lin_to_log_def Let_def fun_upd_apply ne if_False if_True refl)
qed

lemma log_to_lin_scalar_alpha: "log_to_lin False out mem (out + 3) = mem (out + 3)"
proof -
  have ne: "out + 3 \<noteq> out" "out + 3 \<noteq> out + 1" "out + 3 \<noteq> out + 2" by auto
  show ?thesis
    by (simp only: log_to_lin_def Let_def fun_upd_apply ne if_False if_True refl)
qed

lemma LinearFwd_pixel_frame:
  assumes "a < out \<or> out + 4 \<le> a"
  shows "GradingToneLinearFwdOpCPU_pixel USE_SSE v vpr inp out mem a = mem a"
proof -
  from assms have ne: "a \<noteq> out" "a \<noteq> out + 1" "a \<noteq> out + 2" by auto
  show ?thesis
    unfolding GradingToneLinearFwdOpCPU_pixel_def Let_def
    using ne assms
    by (simp add: mids_frame highlightShadow_frame whiteBlack_frame scontrast_frame
        ClampMaxRGB_frame lin_to_log_frame log_to_lin_frame)
qed

lemma LinearFwd_pixel_scalar_alpha:
  assumes "inp = out \<or> inp + 4 \<le> out \<or> out + 4 \<le> inp"
  shows "GradingToneLinearFwdOpCPU_pixel False v vpr inp out mem (out + 3) = mem (inp + 3)"
  unfolding GradingToneLinearFwdOpCPU_pixel_def Let_def
  using assms
  by (simp add: mids_frame highlightShadow_frame whiteBlack_frame scontrast_frame
      ClampMaxRGB_frame lin_to_log_scalar_alpha log_to_lin_scalar_alpha)

lemma LinearFwd_pixel_clamped:
  "c < 3 \<Longrightarrow> GradingToneLinearFwdOpCPU_pixel USE_SSE v vpr inp out mem (out + c) \<le> 65504"
  unfolding GradingToneLinearFwdOpCPU_pixel_def Let_def
  by (rule ClampMaxRGB_le)

lemma LinearFwd_loop_frame:
  "a < out \<or> out + 4 * n \<le> a \<Longrightarrow>
   GradingToneLinearFwdOpCPU_loop USE_SSE v vpr inp out n mem a = mem a"
proof (induction n arbitrary: inp out mem)
  case 0
  then show ?case by simp
next
  case (Suc n)
  from Suc.prems have 1: "a < out + 4 \<or> out + 4 + 4 * n \<le> a" and 2: "a < out \<or> out + 4 \<le> a"
    by auto
  show ?case
    by (simp add: Suc.IH [OF 1] LinearFwd_pixel_frame [OF 2])
qed

lemma LinearFwd_loop_clamped:
  "k < n \<Longrightarrow> c < 3 \<Longrightarrow>
   GradingToneLinearFwdOpCPU_loop USE_SSE v vpr inp out n mem (out + 4 * k + c) \<le> 65504"
proof (induction n arbitrary: inp out mem k)
  case 0
  then show ?case by simp
next
  case (Suc n)
  show ?case
  proof (cases k)
    case 0
    have "out + c < out + 4" using Suc.prems(2) by simp
    then have "GradingToneLinearFwdOpCPU_loop USE_SSE v vpr (inp + 4) (out + 4) n
                 (GradingToneLinearFwdOpCPU_pixel USE_SSE v vpr inp out mem) (out + c)
               = GradingToneLinearFwdOpCPU_pixel USE_SSE v vpr inp out mem (out + c)"
      by (intro LinearFwd_loop_frame) simp
    with 0 show ?thesis
      using LinearFwd_pixel_clamped [OF Suc.prems(2)] by simp
  next
    case (Suc k')
    then have "k' < n" using Suc.prems(1) by simp
    from Suc.IH [OF this Suc.prems(2), of "inp + 4" "out + 4"
        "GradingToneLinearFwdOpCPU_pixel USE_SSE v vpr inp out mem"]
    show ?thesis using Suc by (simp add: algebra_simps)
  qed
qed

lemma LinearFwd_loop_scalar_alpha:
  "inp = out \<or> inp + 4 * n \<le> out \<or> out + 4 * n \<le> inp \<Longrightarrow> k < n \<Longrightarrow>
   GradingToneLinearFwdOpCPU_loop False v vpr inp out n mem (out + 4 * k + 3) = mem (inp + 4 * k + 3)"
proof (induction n arbitrary: inp out mem k)
  case 0
  then show ?case by simp
next
  case (Suc n)
  show ?case
  proof (cases k)
    case 0
    have "GradingToneLinearFwdOpCPU_loop False v vpr (inp + 4) (out + 4) n
                 (GradingToneLinearFwdOpCPU_pixel False v vpr inp out mem) (out + 3)
               = GradingToneLinearFwdOpCPU_pixel False v vpr inp out mem (out + 3)"
      by (intro LinearFwd_loop_frame) simp
    moreover have "inp = out \<or> inp + 4 \<le> out \<or> out + 4 \<le> inp"
      using Suc.prems(1) by auto
    ultimately show ?thesis using 0 by (simp add: LinearFwd_pixel_scalar_alpha)
  next
    case (Suc k')
    then have k': "k' < n" using Suc.prems(2) by simp
    have sep: "inp + 4 = out + 4 \<or> inp + 4 + 4 * n \<le> out + 4 \<or> out + 4 + 4 * n \<le> inp + 4"
      using Suc.prems(1) by auto
    have "inp + 4 + 4 * k' + 3 < out \<or> out + 4 \<le> inp + 4 + 4 * k' + 3"
      using Suc.prems(1) k' by auto
    then have "GradingToneLinearFwdOpCPU_pixel False v vpr inp out mem (inp + 4 + 4 * k' + 3)
                 = mem (inp + 4 + 4 * k' + 3)"
      by (rule LinearFwd_pixel_frame)
    with Suc.IH [OF sep k', of "GradingToneLinearFwdOpCPU_pixel False v vpr inp out mem"]
    show ?thesis using Suc by (simp add: algebra_simps)
  qed
qed

subsection \<open>The clamp\<close>

lemma numeral_ieee: "(numeral n :: ieee) = Finite (numeral n)"
proof (induction n)
  case One
  show ?case by (simp add: one_ieee_def)
next
  case (Bit0 n)
  have "(numeral (num.Bit0 n) :: ieee) = numeral n + numeral n"
    by (rule numeral_Bit0)
  also have "\<dots> = Finite (numeral n + numeral n)"
    unfolding Bit0.IH by simp
  also have "(numeral n + numeral n :: real) = numeral (num.Bit0 n)"
    by (rule numeral_Bit0 [symmetric])
  finally show ?case .
next
  case (Bit1 n)
  have "(numeral (num.Bit1 n) :: ieee) = numeral n + numeral n + 1"
    by (rule numeral_Bit1)
  also have "\<dots> = Finite (numeral n + numeral n + 1)"
    unfolding Bit1.IH one_ieee_def by simp
  also have "(numeral n + numeral n + 1 :: real) = numeral (num.Bit1 n)"
    by (rule numeral_Bit1 [symmetric])
  finally show ?case .
qed

lemma ieee_limit_not_above_itself: "\<not> (65504 :: ieee) < 65504"
  by (simp add: numeral_ieee)

text \<open>
  C5, as amended. After \<^verbatim>\<open>ClampMaxRGB\<close> no colour component exceeds 65504: a component
  above 65504, the positive infinity among them, becomes exactly 65504, and every other
  component keeps its value, at or below 65504 or NaN; the fourth component keeps its
  value. Both forward renderers, when not bypassed, end the work on a pixel with the
  clamp, so no colour component of a pixel of the output buffer exceeds 65504 when
  \<^verbatim>\<open>apply\<close> returns.
\<close>

theorem output_clamp:
  assumes "c < 3"
  shows "ClampMaxRGB out mem (out + c) = (if 65504 < mem (out + c) then 65504 else mem (out + c))
       \<and> ClampMaxRGB out mem (out + 3) = mem (out + 3)
       \<and> \<not> 65504 < ClampMaxRGB out (vmem :: nat \<Rightarrow> ieee) (out + c)
       \<and> (vmem (out + c) = PlusInfinity \<longrightarrow> ClampMaxRGB out vmem (out + c) = 65504)
       \<and> (vmem (out + c) = NaN \<longrightarrow> ClampMaxRGB out vmem (out + c) = NaN)
       \<and> (\<not> getLocalBypass m_gt \<and> k < numPixels \<longrightarrow>
            \<not> 65504 < snd (OpCPU_apply USE_SSE (GradingToneFwdOpCPU m_gt) inImg outImg numPixels mem0)
                          (outImg + 4 * k + c)
          \<and> \<not> 65504 < snd (OpCPU_apply USE_SSE (GradingToneLinearFwdOpCPU m_gt) inImg outImg numPixels mem0)
                          (outImg + 4 * k + c))"
proof -
  have 1: "ClampMaxRGB out mem (out + c) = (if 65504 < mem (out + c) then 65504 else mem (out + c))"
    using assms by (rule ClampMaxRGB_value)
  have 2: "ClampMaxRGB out mem (out + 3) = mem (out + 3)"
    by (simp add: ClampMaxRGB_frame)
  have 3: "\<not> 65504 < ClampMaxRGB out vmem (out + c)"
    unfolding ClampMaxRGB_value [OF assms]
    using ieee_limit_not_above_itself by simp
  have 6: "ClampMaxRGB out vmem (out + c) = 65504" if "vmem (out + c) = PlusInfinity"
    unfolding ClampMaxRGB_value [OF assms] using that by (simp add: numeral_ieee)
  have 7: "ClampMaxRGB out vmem (out + c) = NaN" if "vmem (out + c) = NaN"
    unfolding ClampMaxRGB_value [OF assms] using that by (simp add: numeral_ieee)
  have 4: "\<not> 65504 < snd (OpCPU_apply USE_SSE (GradingToneFwdOpCPU m_gt) inImg outImg numPixels mem0)
                          (outImg + 4 * k + c)"
    if "\<not> getLocalBypass m_gt" "k < numPixels"
    using that assms Fwd_loop_clamped [of k numPixels c]
    by (simp add: GradingToneFwdOpCPU_apply_def not_less)
  have 5: "\<not> 65504 < snd (OpCPU_apply USE_SSE (GradingToneLinearFwdOpCPU m_gt) inImg outImg numPixels mem0)
                          (outImg + 4 * k + c)"
    if "\<not> getLocalBypass m_gt" "k < numPixels"
    using that assms LinearFwd_loop_clamped [of k numPixels c]
    by (simp add: GradingToneLinearFwdOpCPU_apply_def not_less)
  from 1 2 3 4 5 6 7 show ?thesis by blast
qed

theorem output_clamp_witness:
  "(2::nat) < 3 \<and> (1::nat) < 3 \<and> (0::nat) < 3
 \<and> ClampMaxRGB 0 ieee_example_mem (0 + 2) = 65504
 \<and> ClampMaxRGB 0 ieee_example_mem (0 + 3) = Finite 0.25
 \<and> \<not> 65504 < ClampMaxRGB 0 ieee_example_mem (0 + 2)
 \<and> ieee_example_mem (0 + 1) = PlusInfinity
 \<and> ClampMaxRGB 0 ieee_example_mem (0 + 1) = 65504
 \<and> ieee_example_mem (0 + 0) = NaN
 \<and> ClampMaxRGB 0 ieee_example_mem (0 + 0) = NaN
 \<and> \<not> getLocalBypass \<lparr>getLocalBypass = False, getValue = neutral_tone, getComputedValue = example_table\<rparr>
 \<and> (0::nat) < 1
 \<and> \<not> 65504 < snd (OpCPU_apply False (GradingToneFwdOpCPU
          \<lparr>getLocalBypass = False, getValue = neutral_tone, getComputedValue = example_table\<rparr>)
          0 0 1 example_mem) (0 + 4 * 0 + 2)"
  using output_clamp [where c = 2 and out = 0 and mem = ieee_example_mem and vmem = ieee_example_mem
          and m_gt = "\<lparr>getLocalBypass = False, getValue = neutral_tone, getComputedValue = example_table\<rparr>"
          and k = 0 and numPixels = 1 and USE_SSE = False and inImg = 0 and outImg = 0
          and ?mem0.0 = example_mem]
        output_clamp [where c = 1 and out = 0 and mem = ieee_example_mem and vmem = ieee_example_mem
          and m_gt = "\<lparr>getLocalBypass = False, getValue = neutral_tone, getComputedValue = example_table\<rparr>"
          and k = 0 and numPixels = 1 and USE_SSE = False and inImg = 0 and outImg = 0
          and ?mem0.0 = example_mem]
        output_clamp [where c = 0 and out = 0 and mem = ieee_example_mem and vmem = ieee_example_mem
          and m_gt = "\<lparr>getLocalBypass = False, getValue = neutral_tone, getComputedValue = example_table\<rparr>"
          and k = 0 and numPixels = 1 and USE_SSE = False and inImg = 0 and outImg = 0
          and ?mem0.0 = example_mem]
  by (simp add: ieee_example_mem_def numeral_ieee)

text \<open>
  The claim as it was stated, that every colour component of the output is at most 65504,
  fails for a component that is NaN: \<^verbatim>\<open>std::min\<close> finds 65504 not below it and returns
  it, and NaN is not at most 65504.
\<close>

theorem output_clamp_keeps_nan:
  "ClampMaxRGB 0 ieee_example_mem 0 = NaN
 \<and> \<not> ClampMaxRGB 0 ieee_example_mem 0 \<le> 65504
 \<and> ClampMaxRGB 0 ieee_example_mem 1 = 65504"
  by (simp add: ClampMaxRGB_def Let_def std_min_def ieee_example_mem_def numeral_ieee)

subsection \<open>The order of the stages\<close>

lemma Fwd_pixel_stages:
  "GradingToneFwdOpCPU_pixel v vpr inp out mem =
     ClampMaxRGB out (run_stages v vpr out (memcpy out inp PixelSize mem))"
  by (simp add: GradingToneFwdOpCPU_pixel_def run_stages_def stage_order_def Let_def)

lemma LinearFwd_pixel_stages:
  "GradingToneLinearFwdOpCPU_pixel USE_SSE v vpr inp out mem =
     ClampMaxRGB out (log_to_lin USE_SSE out (run_stages v vpr out (lin_to_log USE_SSE inp out mem)))"
  by (simp add: GradingToneLinearFwdOpCPU_pixel_def run_stages_def stage_order_def Let_def)

lemma fold_upt_shift:
  "fold (\<lambda>idx. f (i + 4 * idx) (j + 4 * idx)) [0..<Suc n] mem
     = fold (\<lambda>idx. f (i + 4 + 4 * idx) (j + 4 + 4 * idx)) [0..<n] (f i j mem)"
proof -
  have "[0..<Suc n] = 0 # map Suc [0..<n]"
    by (simp add: upt_conv_Cons map_Suc_upt del: upt_Suc)
  then show ?thesis
    by (simp add: fold_map comp_def add.assoc del: upt_Suc)
qed

lemma Fwd_loop_for_each:
  "GradingToneFwdOpCPU_loop v vpr inp out n mem
     = for_each_pixel (GradingToneFwdOpCPU_pixel v vpr) inp out n mem"
proof (induction n arbitrary: inp out mem)
  case 0
  then show ?case by (simp add: for_each_pixel_def)
next
  case (Suc n)
  show ?case
    unfolding for_each_pixel_def fold_upt_shift
    using Suc.IH [of "inp + 4" "out + 4"]
    by (simp add: for_each_pixel_def)
qed

lemma LinearFwd_loop_for_each:
  "GradingToneLinearFwdOpCPU_loop USE_SSE v vpr inp out n mem
     = for_each_pixel (GradingToneLinearFwdOpCPU_pixel USE_SSE v vpr) inp out n mem"
proof (induction n arbitrary: inp out mem)
  case 0
  then show ?case by (simp add: for_each_pixel_def)
next
  case (Suc n)
  show ?case
    unfolding for_each_pixel_def fold_upt_shift
    using Suc.IH [of "inp + 4" "out + 4"]
    by (simp add: for_each_pixel_def)
qed

text \<open>
  C3. A forward \<^verbatim>\<open>apply\<close> that is not bypassed works on the pixels in their order, and
  on each pixel it runs the stages in the order of the specification: the midtones for
  red, green, blue and then master, the highlights, the whites, the shadows and the blacks
  in the same way, then the symmetric contrast, each stage on what the stage before it
  left, so that master works on the values its band has set for red, green and blue; the
  clamp comes last. The plain renderer copies the pixel first; the renderer of the linear
  style puts the change to the log encoding before the stages and the change back between
  the stages and the clamp.
\<close>

theorem stage_order_of_forward_apply:
  assumes "\<not> getLocalBypass m_gt"
  shows "OpCPU_apply USE_SSE (GradingToneFwdOpCPU m_gt) inImg outImg numPixels mem =
           (None, for_each_pixel
              (\<lambda>inp out mem. ClampMaxRGB out
                  (run_stages (getValue m_gt) (getComputedValue m_gt) out
                     (memcpy out inp PixelSize mem)))
              inImg outImg numPixels mem)
       \<and> OpCPU_apply USE_SSE (GradingToneLinearFwdOpCPU m_gt) inImg outImg numPixels mem =
           (None, for_each_pixel
              (\<lambda>inp out mem. ClampMaxRGB out
                  (log_to_lin USE_SSE out
                     (run_stages (getValue m_gt) (getComputedValue m_gt) out
                        (lin_to_log USE_SSE inp out mem))))
              inImg outImg numPixels mem)
       \<and> run_stages v vpr out mem' =
           scontrast v vpr out
            (whiteBlack v vpr M True out (whiteBlack v vpr B True out
            (whiteBlack v vpr G True out (whiteBlack v vpr R True out
            (highlightShadow v vpr M True out (highlightShadow v vpr B True out
            (highlightShadow v vpr G True out (highlightShadow v vpr R True out
            (whiteBlack v vpr M False out (whiteBlack v vpr B False out
            (whiteBlack v vpr G False out (whiteBlack v vpr R False out
            (highlightShadow v vpr M False out (highlightShadow v vpr B False out
            (highlightShadow v vpr G False out (highlightShadow v vpr R False out
            (mids v vpr M out (mids v vpr B out (mids v vpr G out (mids v vpr R out mem'
            ))))))))))))))))))))"
proof -
  have 1: "GradingToneFwdOpCPU_pixel v vpr =
      (\<lambda>inp out mem. ClampMaxRGB out (run_stages v vpr out (memcpy out inp PixelSize mem)))" for v vpr
    by (rule ext, rule ext, rule ext) (rule Fwd_pixel_stages)
  have 2: "GradingToneLinearFwdOpCPU_pixel USE_SSE v vpr =
      (\<lambda>inp out mem. ClampMaxRGB out
          (log_to_lin USE_SSE out (run_stages v vpr out (lin_to_log USE_SSE inp out mem))))" for v vpr
    by (rule ext, rule ext, rule ext) (rule LinearFwd_pixel_stages)
  show ?thesis
    using assms
    by (simp add: GradingToneFwdOpCPU_apply_def GradingToneLinearFwdOpCPU_apply_def
        Fwd_loop_for_each LinearFwd_loop_for_each 1 2 run_stages_def stage_order_def)
qed

theorem stage_order_of_forward_apply_witness:
  "\<not> getLocalBypass \<lparr>getLocalBypass = False, getValue = neutral_tone\<lparr>m_midtones := (\<lambda>c. 1.4)\<rparr>,
        getComputedValue = example_table\<rparr>
 \<and> OpCPU_apply False (GradingToneFwdOpCPU
        \<lparr>getLocalBypass = False, getValue = neutral_tone\<lparr>m_midtones := (\<lambda>c. 1.4)\<rparr>,
          getComputedValue = example_table\<rparr>) 0 0 1 example_mem
     = (None, ClampMaxRGB 0 (run_stages (neutral_tone\<lparr>m_midtones := (\<lambda>c. 1.4)\<rparr>) example_table 0
                (memcpy 0 0 PixelSize example_mem)))"
  using stage_order_of_forward_apply [of
          "\<lparr>getLocalBypass = False, getValue = neutral_tone\<lparr>m_midtones := (\<lambda>c. 1.4)\<rparr>,
            getComputedValue = example_table\<rparr>" False 0 0 1 example_mem]
  by (simp add: for_each_pixel_def)

subsection \<open>The bypass\<close>

text \<open>
  C4. With the bypass flag set, \<^verbatim>\<open>apply\<close> of either forward renderer throws nothing
  and copies the four cells of each of the \<open>numPixels\<close> pixels of the input buffer to the
  output buffer, changing no other cell; with the input buffer as the output buffer the
  store is left as it is. No curve is evaluated: the result does not depend on the
  controls or on the table, and both renderers do the same.
\<close>

theorem bypass_copies:
  assumes "getLocalBypass m_gt"
  shows "fst (OpCPU_apply USE_SSE (GradingToneFwdOpCPU m_gt) inImg outImg numPixels mem) = None
       \<and> (i < 4 * numPixels \<longrightarrow>
            snd (OpCPU_apply USE_SSE (GradingToneFwdOpCPU m_gt) inImg outImg numPixels mem) (outImg + i)
              = mem (inImg + i))
       \<and> (a < outImg \<or> outImg + 4 * numPixels \<le> a \<longrightarrow>
            snd (OpCPU_apply USE_SSE (GradingToneFwdOpCPU m_gt) inImg outImg numPixels mem) a = mem a)
       \<and> (inImg = outImg \<longrightarrow>
            snd (OpCPU_apply USE_SSE (GradingToneFwdOpCPU m_gt) inImg outImg numPixels mem) = mem)
       \<and> OpCPU_apply USE_SSE (GradingToneFwdOpCPU (m_gt\<lparr>getValue := v, getComputedValue := vpr\<rparr>))
            inImg outImg numPixels mem
           = OpCPU_apply USE_SSE (GradingToneFwdOpCPU m_gt) inImg outImg numPixels mem
       \<and> OpCPU_apply USE_SSE (GradingToneLinearFwdOpCPU m_gt) inImg outImg numPixels mem
           = OpCPU_apply USE_SSE (GradingToneFwdOpCPU m_gt) inImg outImg numPixels mem"
  using assms
  by (simp add: GradingToneFwdOpCPU_apply_def GradingToneLinearFwdOpCPU_apply_def
      memcpy_def PixelSize_def mult.commute)

theorem bypass_copies_witness:
  "getLocalBypass \<lparr>getLocalBypass = True, getValue = neutral_tone\<lparr>m_midtones := (\<lambda>c. 1.4)\<rparr>,
        getComputedValue = example_table\<rparr>
 \<and> (2::nat) < 4 * 1
 \<and> snd (OpCPU_apply False (GradingToneFwdOpCPU
          \<lparr>getLocalBypass = True, getValue = neutral_tone\<lparr>m_midtones := (\<lambda>c. 1.4)\<rparr>,
            getComputedValue = example_table\<rparr>) 0 8 1 example_mem) (8 + 2) = 70000
 \<and> (3::nat) < 8
 \<and> snd (OpCPU_apply False (GradingToneFwdOpCPU
          \<lparr>getLocalBypass = True, getValue = neutral_tone\<lparr>m_midtones := (\<lambda>c. 1.4)\<rparr>,
            getComputedValue = example_table\<rparr>) 0 8 1 example_mem) 3 = 0.25
 \<and> snd (OpCPU_apply False (GradingToneFwdOpCPU
          \<lparr>getLocalBypass = True, getValue = neutral_tone\<lparr>m_midtones := (\<lambda>c. 1.4)\<rparr>,
            getComputedValue = example_table\<rparr>) 0 0 1 example_mem) = example_mem"
  using bypass_copies [of "\<lparr>getLocalBypass = True, getValue = neutral_tone\<lparr>m_midtones := (\<lambda>c. 1.4)\<rparr>,
            getComputedValue = example_table\<rparr>" False 0 8 1 example_mem 2 3]
    bypass_copies [of "\<lparr>getLocalBypass = True, getValue = neutral_tone\<lparr>m_midtones := (\<lambda>c. 1.4)\<rparr>,
            getComputedValue = example_table\<rparr>" False 0 0 1 example_mem 2 3]
  by (simp add: example_mem_def)

subsection \<open>The fourth component\<close>

text \<open>
  Where the input buffer is the output buffer or the two do not overlap, the plain
  renderer, bypassed or not, and the renderer of the linear style in the branch compiled
  without \<^verbatim>\<open>USE_SSE\<close> give every pixel of the output the fourth component of the pixel
  of the input.
\<close>

lemma forward_alpha_scalar:
  assumes "inImg = outImg \<or> inImg + 4 * numPixels \<le> outImg \<or> outImg + 4 * numPixels \<le> inImg"
    and "k < numPixels"
  shows "snd (OpCPU_apply USE_SSE (GradingToneFwdOpCPU m_gt) inImg outImg numPixels mem)
           (outImg + 4 * k + 3) = mem (inImg + 4 * k + 3)"
    and "snd (OpCPU_apply False (GradingToneLinearFwdOpCPU m_gt) inImg outImg numPixels mem)
           (outImg + 4 * k + 3) = mem (inImg + 4 * k + 3)"
proof -
  have "4 * k + 3 < numPixels * PixelSize"
    using assms(2) by (simp add: PixelSize_def)
  then have "memcpy outImg inImg (numPixels * PixelSize) mem (outImg + (4 * k + 3))
                  = mem (inImg + (4 * k + 3))"
    by (rule memcpy_value)
  then have cp: "memcpy outImg inImg (numPixels * PixelSize) mem (outImg + 4 * k + 3)
                  = mem (inImg + 4 * k + 3)"
    by (simp only: add.assoc)
  show "snd (OpCPU_apply USE_SSE (GradingToneFwdOpCPU m_gt) inImg outImg numPixels mem)
           (outImg + 4 * k + 3) = mem (inImg + 4 * k + 3)"
  proof (cases "getLocalBypass m_gt")
    case True
    with cp show ?thesis
      by (cases "inImg = outImg") (simp_all add: GradingToneFwdOpCPU_apply_def)
  next
    case False
    with Fwd_loop_alpha [OF assms] show ?thesis
      by (simp only: OpCPU_apply.simps GradingToneFwdOpCPU_apply_def if_False snd_conv)
  qed
  show "snd (OpCPU_apply False (GradingToneLinearFwdOpCPU m_gt) inImg outImg numPixels mem)
           (outImg + 4 * k + 3) = mem (inImg + 4 * k + 3)"
  proof (cases "getLocalBypass m_gt")
    case True
    with cp show ?thesis
      by (cases "inImg = outImg") (simp_all add: GradingToneLinearFwdOpCPU_apply_def)
  next
    case False
    with LinearFwd_loop_scalar_alpha [OF assms] show ?thesis
      by (simp only: OpCPU_apply.simps GradingToneLinearFwdOpCPU_apply_def if_False snd_conv)
  qed
qed

text \<open>
  In the branch compiled with \<^verbatim>\<open>USE_SSE\<close> all four lanes of the pixel go through the
  change to the log encoding and back: the fourth component of the output is the fourth
  component of the input encoded and then decoded.
\<close>

lemma lin_to_log_sse_alpha:
  "lin_to_log True inp out mem (out + 3) =
     (if mem (inp + 3) > lin_xbrk then log 2 ((mem (inp + 3) + lin_shift) * lin_m)
      else mem (inp + 3) * lin_gain + lin_offs)"
  by (simp add: lin_to_log_def Let_def mm_storeu_ps_def mm_loadu_ps_def mm_cmpgt_ps_def
      mm_set1_ps_def mm_mul_ps_def mm_add_ps_def sseLog2_def mm_or_ps_def mm_and_ps_def
      mm_andnot_ps_def)

lemma log_to_lin_sse_alpha:
  "log_to_lin True out mem (out + 3) =
     (if mem (out + 3) > lin_ybrk then 2 powr (mem (out + 3)) * (lin_shift + 0.18) - lin_shift
      else (mem (out + 3) - lin_offs) * (1 / lin_gain))"
  by (simp add: log_to_lin_def Let_def mm_storeu_ps_def mm_loadu_ps_def mm_cmpgt_ps_def
      mm_set1_ps_def mm_mul_ps_def mm_sub_ps_def ssePower_def mm_or_ps_def mm_and_ps_def
      mm_andnot_ps_def)

lemma LinearFwd_pixel_sse_alpha:
  "GradingToneLinearFwdOpCPU_pixel True v vpr inp out mem (out + 3) =
     (let y = (if mem (inp + 3) > lin_xbrk then log 2 ((mem (inp + 3) + lin_shift) * lin_m)
               else mem (inp + 3) * lin_gain + lin_offs)
      in if y > lin_ybrk then 2 powr y * (lin_shift + 0.18) - lin_shift
         else (y - lin_offs) * (1 / lin_gain))"
  unfolding GradingToneLinearFwdOpCPU_pixel_def Let_def
  by (simp add: mids_frame highlightShadow_frame whiteBlack_frame scontrast_frame
      ClampMaxRGB_frame lin_to_log_sse_alpha log_to_lin_sse_alpha)

lemma two_powr_half_square: "(2::real) powr (- 5.5) * 2 powr (- 5.5) = 1 / 2048"
proof -
  have "(2::real) powr (- 5.5) * 2 powr (- 5.5) = 2 powr (- 5.5 + - 5.5)"
    by (rule powr_add [symmetric])
  also have "(- 5.5 + - 5.5 :: real) = - 11" by simp
  also have "(2::real) powr (- 11) = inverse (2 powr 11)"
    by (rule powr_minus)
  also have "(2::real) powr 11 = 2 ^ 11"
    by (rule powr_numeral) simp
  also have "inverse ((2::real) ^ 11) = 1 / 2048" by simp
  finally show ?thesis .
qed

lemma breakpoint_above:
  "lin_xbrk < 2 powr (lin_xbrk * lin_gain + lin_offs) * (lin_shift + 0.18) - lin_shift"
proof -
  define q :: real where "q = (lin_xbrk + lin_shift) / (lin_shift + 0.18)"
  define r :: real where "r = 2 powr (- 5.5)"
  define y :: real where "y = lin_xbrk * lin_gain + lin_offs"
  have c: "0 < lin_shift + 0.18" by (simp add: lin_shift_def)
  have rr: "r\<^sup>2 = 1 / 2048"
    unfolding r_def power2_eq_square by (rule two_powr_half_square)
  have "q\<^sup>2 < 1 / 2048"
    unfolding q_def lin_xbrk_def lin_shift_def by (simp add: power2_eq_square)
  with rr have "q\<^sup>2 < r\<^sup>2" by simp
  moreover have "0 \<le> r" unfolding r_def by (rule powr_ge_zero)
  ultimately have "q < r" by (rule power2_less_imp_less)
  moreover have "- 5.5 < y"
    unfolding y_def lin_xbrk_def lin_gain_def lin_offs_def by simp
  then have "r < 2 powr y"
    unfolding r_def by (rule powr_less_mono) simp
  ultimately have "q < 2 powr y" by (rule less_trans)
  then have "lin_xbrk + lin_shift < 2 powr y * (lin_shift + 0.18)"
    unfolding q_def using c by (simp only: pos_divide_less_eq)
  then show ?thesis unfolding y_def by linarith
qed

text \<open>
  C6. The fourth component of a pixel is meant to pass through a forward \<^verbatim>\<open>apply\<close>
  as it is. The renderer of the linear style compiled with \<^verbatim>\<open>USE_SSE\<close> does not do
  that: for the black pixel whose alpha is 0.0041318374739483946, with every control
  neutral, the alpha is encoded on the linear piece, to a value above the breakpoint -5.5
  of the way back, and decoded on the exponential piece, to a value above the alpha that
  came in. The branch compiled without \<^verbatim>\<open>USE_SSE\<close> copies the alpha.
\<close>

theorem linear_sse_alpha_not_copied:
  "snd (OpCPU_apply True (GradingToneLinearFwdOpCPU
          \<lparr>getLocalBypass = False, getValue = neutral_tone, getComputedValue = example_table\<rparr>)
          0 0 1 alpha_example_mem) 3
     = 2 powr (lin_xbrk * lin_gain + lin_offs) * (lin_shift + 0.18) - lin_shift
 \<and> snd (OpCPU_apply True (GradingToneLinearFwdOpCPU
          \<lparr>getLocalBypass = False, getValue = neutral_tone, getComputedValue = example_table\<rparr>)
          0 0 1 alpha_example_mem) 3
     > alpha_example_mem 3
 \<and> snd (OpCPU_apply False (GradingToneLinearFwdOpCPU
          \<lparr>getLocalBypass = False, getValue = neutral_tone, getComputedValue = example_table\<rparr>)
          0 0 1 alpha_example_mem) 3
     = alpha_example_mem 3"
proof -
  have m3: "alpha_example_mem 3 = lin_xbrk"
    by (simp add: alpha_example_mem_def lin_xbrk_def)
  have ygt: "lin_ybrk < lin_xbrk * lin_gain + lin_offs"
    by (simp add: lin_ybrk_def lin_xbrk_def lin_gain_def lin_offs_def)
  have sse: "GradingToneLinearFwdOpCPU_pixel True neutral_tone example_table 0 0 alpha_example_mem 3
      = 2 powr (lin_xbrk * lin_gain + lin_offs) * (lin_shift + 0.18) - lin_shift"
    using LinearFwd_pixel_sse_alpha [of neutral_tone example_table 0 0 alpha_example_mem]
    by (simp add: m3 ygt Let_def)
  have scalar: "GradingToneLinearFwdOpCPU_pixel False neutral_tone example_table 0 0 alpha_example_mem 3
      = alpha_example_mem 3"
    using LinearFwd_pixel_scalar_alpha [of 0 0 neutral_tone example_table alpha_example_mem]
    by simp
  show ?thesis
    using breakpoint_above
    by (simp add: GradingToneLinearFwdOpCPU_apply_def sse scalar m3)
qed

end
